theory Spec2Isabelle
  imports Main "HOL-Library.AList" "HOL-Library.Sublist"
begin

section \<open>JavaScript values and strings\<close>

text \<open>
  A JavaScript string is modelled as a \<open>string\<close>, one \<open>char\<close> per code unit; the scripts
  only ever inspect code units for white space and for the prefixes of placeholder tokens.
  The counters are JavaScript numbers that start at 1 and only grow by one; they are
  modelled as \<open>nat\<close> (exact below \<open>2 ^ 53\<close>).
\<close>

datatype jsval = JUndefined | JNull | JBool bool | JNum nat | JStr string

text \<open>The conversion to boolean used by \<open>!x\<close> and \<open>x || y\<close>.\<close>

fun truthy :: "jsval \<Rightarrow> bool" where
  "truthy JUndefined = False"
| "truthy JNull = False"
| "truthy (JBool b) = b"
| "truthy (JNum n) = (n \<noteq> 0)"
| "truthy (JStr s) = (s \<noteq> [])"

definition digit_char :: "nat \<Rightarrow> char" where
  "digit_char d = ''0123456789'' ! d"

function string_of_nat :: "nat \<Rightarrow> string" where
  "string_of_nat n =
     (if n < 10 then [digit_char n]
      else string_of_nat (n div 10) @ [digit_char (n mod 10)])"
  by pat_completeness auto
termination
  by (relation "measure id") auto

declare string_of_nat.simps [simp del]

text \<open>The conversion to string used by template literals and by \<open>new Error(x)\<close>.\<close>

fun toString :: "jsval \<Rightarrow> string" where
  "toString JUndefined = ''undefined''"
| "toString JNull = ''null''"
| "toString (JBool b) = (if b then ''true'' else ''false'')"
| "toString (JNum n) = string_of_nat n"
| "toString (JStr s) = s"

text \<open>\<open>a || b\<close>\<close>

definition js_or :: "jsval \<Rightarrow> jsval \<Rightarrow> jsval" where
  "js_or a b = (if truthy a then a else b)"

text \<open>
  Assigning to \<open>textContent\<close> (a nullable DOMString: \<open>null\<close> and \<open>undefined\<close> give the
  empty string) and to \<open>innerText\<close> (only \<open>null\<close> gives the empty string).
\<close>

fun textContent_of :: "jsval \<Rightarrow> string" where
  "textContent_of JUndefined = []"
| "textContent_of JNull = []"
| "textContent_of v = toString v"

fun innerText_of :: "jsval \<Rightarrow> string" where
  "innerText_of JNull = []"
| "innerText_of v = toString v"

text \<open>\<open>s.substring(start, end)\<close> and \<open>s.substring(start)\<close> on non-negative arguments.\<close>

definition substring :: "string \<Rightarrow> nat \<Rightarrow> nat \<Rightarrow> string" where
  "substring s start end =
     (let a = min start (length s); b = min end (length s)
      in take (max a b - min a b) (drop (min a b) s))"

definition substring_from :: "string \<Rightarrow> nat \<Rightarrow> string" where
  "substring_from s start = substring s start (length s)"

text \<open>
  \<open>s.trim()\<close>: the white space and line terminators of ECMAScript that fit in one
  \<open>char\<close> are TAB, LF, VT, FF, CR, SP and NBSP.
\<close>

definition js_whitespace :: "char \<Rightarrow> bool" where
  "js_whitespace c = (of_char c \<in> {9, 10, 11, 12, 13, 32, 160 :: nat})"

definition trim :: "string \<Rightarrow> string" where
  "trim s = rev (dropWhile js_whitespace (rev (dropWhile js_whitespace s)))"

text \<open>\<open>s.indexOf(sub) !== -1\<close>\<close>

fun contains :: "string \<Rightarrow> string \<Rightarrow> bool" where
  "contains [] sub = (sub = [])"
| "contains (c # cs) sub = (prefix sub (c # cs) \<or> contains cs sub)"

section \<open>Placeholder tokens\<close>

text \<open>The template literals \<open>`[[img${n}]]`\<close> and \<open>`[[code${n}]]`\<close>, and \<open>`[[${type}${n}]]`\<close>.\<close>

definition token :: "string \<Rightarrow> nat \<Rightarrow> string" where
  "token type n = ''[['' @ type @ string_of_nat n @ '']]''"

section \<open>The browser: network, files, DOM elements\<close>

text \<open>
  What \<open>response.json()\<close> gives: a syntax error with its message, or the parsed object
  with its properties (bodies that parse to something other than an object are left out).
\<close>

datatype json_result = SyntaxError string | Parsed "(string \<times> jsval) list"

text \<open>Property access \<open>obj.name\<close> on a parsed JSON object.\<close>

definition field :: "(string \<times> jsval) list \<Rightarrow> string \<Rightarrow> jsval" where
  "field obj name = (case map_of obj name of None \<Rightarrow> JUndefined | Some v \<Rightarrow> v)"

record response =
  status :: nat
  json_body :: json_result
  blob_body :: string

datatype fetch_outcome = Rejected string | Responded response

definition ok :: "response \<Rightarrow> bool" where
  "ok r = (200 \<le> status r \<and> status r \<le> 299)"

datatype request =
    GenerateReq string string "(string \<times> string) list" string
  | DownloadReq string jsval jsval

text \<open>
  A file or clipboard blob: its MIME type and its bytes in base64. Reading it as a data
  URL gives \<open>data:<type>;base64,<bytes>\<close>; a read may also fail.
\<close>

record blob =
  blob_type :: string
  blob_base64 :: string
  blob_readable :: bool

definition readAsDataURL :: "blob \<Rightarrow> string" where
  "readAsDataURL b = ''data:'' @ blob_type b @ '';base64,'' @ blob_base64 b"

record element =
  el_id :: nat
  el_class :: string
  el_text :: string
  el_buttons :: "(string \<times> jsval) list"

text \<open>\<open>parent.removeChild(child)\<close> throws NotFoundError when the child is not in the parent.\<close>

definition removeChild :: "nat \<Rightarrow> element list \<Rightarrow> element list option" where
  "removeChild i els =
     (if i \<in> el_id ` set els then Some (filter (\<lambda>e. el_id e \<noteq> i) els) else None)"

section \<open>The chat scripts\<close>

record chat =
  messageInput_value :: string
  selectionStart :: nat
  codeInput_value :: string
  codeModal_open :: bool
  categorySelect_value :: string
  placeholderMap :: "(string \<times> string) list"
  codeCounter :: nat
  imgCounter :: nat
  lastCursorPosition :: nat
  isFocusMode :: bool
  overlay_visible :: bool
  input_focus :: bool
  currentSessionId :: jsval
  sendButton_disabled :: bool
  chatBox :: "element list"
  imagePreviews :: "(string \<times> string) list"
  codePreviews :: "(string \<times> string) list"
  network :: "request list"
  alerts :: "string list"
  downloads :: "(string \<times> string) list"
  blob_urls :: "blob list"
  next_id :: nat

definition insertPlaceholder :: "string \<Rightarrow> nat \<Rightarrow> chat \<Rightarrow> chat" where
  "insertPlaceholder placeholder position st =
     (let text = messageInput_value st;
          value' = substring text 0 position @ placeholder @ substring_from text position;
          newCursorPos = position + length placeholder
      in st\<lparr>messageInput_value := value',
            selectionStart := min newCursorPos (length value'),
            lastCursorPosition := newCursorPos\<rparr>)"

text \<open>
  The first script of the chat page (the one that keeps \<open>currentSessionId\<close>). A network
  call suspends \<open>sendMessage\<close> at its \<open>await\<close>: \<open>sendMessage_begin\<close> is the part that
  runs up to the call and \<open>sendMessage_resume\<close> the part that runs once the call has
  settled, on whatever state the page is in by then.
\<close>

definition chat_init :: "string \<Rightarrow> chat" where
  "chat_init category =
     \<lparr>messageInput_value = [], selectionStart = 0, codeInput_value = [],
      codeModal_open = False, categorySelect_value = category, placeholderMap = [],
      codeCounter = 1, imgCounter = 1, lastCursorPosition = 0, isFocusMode = False,
      overlay_visible = False, input_focus = False, currentSessionId = JNull,
      sendButton_disabled = False, chatBox = [], imagePreviews = [], codePreviews = [],
      network = [], alerts = [], downloads = [], blob_urls = [], next_id = 0\<rparr>"

definition enterFocusMode :: "chat \<Rightarrow> chat" where
  "enterFocusMode st =
     (if isFocusMode st then st
      else st\<lparr>isFocusMode := True, overlay_visible := True, input_focus := True\<rparr>)"

definition exitFocusMode :: "chat \<Rightarrow> chat" where
  "exitFocusMode st =
     (if \<not> isFocusMode st then st
      else st\<lparr>isFocusMode := False, overlay_visible := False, input_focus := False\<rparr>)"

definition messageInput_focusout :: "chat \<Rightarrow> chat" where
  "messageInput_focusout st = st\<lparr>lastCursorPosition := selectionStart st\<rparr>"

definition addImagePreview :: "string \<Rightarrow> string \<Rightarrow> chat \<Rightarrow> chat" where
  "addImagePreview url placeholder st =
     st\<lparr>imagePreviews := imagePreviews st @ [(url, placeholder)]\<rparr>"

definition addCodePreview :: "string \<Rightarrow> string \<Rightarrow> chat \<Rightarrow> chat" where
  "addCodePreview code placeholder st =
     st\<lparr>codePreviews := codePreviews st @ [(code, placeholder)]\<rparr>"

definition appendMessage :: "jsval \<Rightarrow> string \<Rightarrow> chat \<Rightarrow> nat \<times> chat" where
  "appendMessage text sender st =
     (let messageElement =
            \<lparr>el_id = next_id st, el_class = ''message '' @ sender @ ''-message'',
             el_text = textContent_of text, el_buttons = []\<rparr>
      in (next_id st,
          st\<lparr>chatBox := chatBox st @ [messageElement], next_id := Suc (next_id st)\<rparr>))"

definition addDownloadButtons :: "nat \<Rightarrow> jsval \<Rightarrow> chat \<Rightarrow> chat" where
  "addDownloadButtons messageElement content st =
     st\<lparr>chatBox := map (\<lambda>e. if el_id e = messageElement
                then e\<lparr>el_buttons := el_buttons e @
                        [(''Download Package (.zip)'', content),
                         (''Download as Word (.docx)'', content)]\<rparr>
                else e) (chatBox st)\<rparr>"

definition showLoadingAnimation :: "chat \<Rightarrow> nat \<times> chat" where
  "showLoadingAnimation st =
     (let loadingAnimation =
            \<lparr>el_id = next_id st, el_class = ''loading-animation'', el_text = [],
             el_buttons = []\<rparr>
      in (next_id st,
          st\<lparr>chatBox := chatBox st @ [loadingAnimation], next_id := Suc (next_id st)\<rparr>))"

definition hideLoadingAnimation :: "nat \<Rightarrow> chat \<Rightarrow> chat" where
  "hideLoadingAnimation loadingAnimation st =
     (case removeChild loadingAnimation (chatBox st) of
        None \<Rightarrow> st
      | Some els \<Rightarrow> st\<lparr>chatBox := els\<rparr>)"

definition sendMessage_begin :: "chat \<Rightarrow> nat option \<times> chat" where
  "sendMessage_begin st =
     (if sendButton_disabled st then (None, st)
      else
        let st1 = st\<lparr>sendButton_disabled := True\<rparr>;
            messageText = trim (messageInput_value st1)
        in if messageText = [] then (None, st1\<lparr>sendButton_disabled := False\<rparr>)
           else
             let st2 = (if isFocusMode st1 then exitFocusMode st1 else st1);
                 st3 = snd (appendMessage (JStr messageText) ''user'' st2);
                 st4 = st3\<lparr>messageInput_value := [], selectionStart := 0\<rparr>;
                 (loadingAnimation, st5) = showLoadingAnimation st4;
                 st6 = st5\<lparr>network := network st5 @
                         [GenerateReq ''http://localhost:8000/generate'' messageText
                            (placeholderMap st5) (categorySelect_value st5)]\<rparr>
             in (Some loadingAnimation, st6))"

text \<open>The \<open>catch\<close> block of \<open>sendMessage\<close>, for an error with the given message.\<close>

definition sendMessage_catch :: "nat \<Rightarrow> string \<Rightarrow> chat \<Rightarrow> chat" where
  "sendMessage_catch loadingAnimation message st =
     snd (appendMessage (JStr (''Error: '' @ message)) ''bot''
            (hideLoadingAnimation loadingAnimation st))"

text \<open>The \<open>try\<close> block from the settled call on, with its \<open>catch\<close>.\<close>

definition sendMessage_try :: "nat \<Rightarrow> fetch_outcome \<Rightarrow> chat \<Rightarrow> chat" where
  "sendMessage_try loadingAnimation outcome st =
     (case outcome of
        Rejected message \<Rightarrow> sendMessage_catch loadingAnimation message st
      | Responded r \<Rightarrow>
          if \<not> ok r then
            let errorData = (case json_body r of SyntaxError _ \<Rightarrow> [] | Parsed obj \<Rightarrow> obj)
            in sendMessage_catch loadingAnimation
                 (toString (js_or (field errorData ''detail'')
                    (JStr ''An unknown error occurred.''))) st
          else
            (case json_body r of
               SyntaxError message \<Rightarrow> sendMessage_catch loadingAnimation message st
             | Parsed data \<Rightarrow>
                 let st1 = st\<lparr>currentSessionId := field data ''session_id''\<rparr>;
                     st2 = hideLoadingAnimation loadingAnimation st1;
                     (botMessage, st3) = appendMessage (JStr ''Done!'') ''bot'' st2
                 in addDownloadButtons botMessage (field data ''generated_text'') st3))"

definition sendMessage_resume :: "nat \<Rightarrow> fetch_outcome \<Rightarrow> chat \<Rightarrow> chat" where
  "sendMessage_resume loadingAnimation outcome st =
     (let st1 = sendMessage_try loadingAnimation outcome st;
          st2 = st1\<lparr>sendButton_disabled := False\<rparr>
      in st2\<lparr>placeholderMap := [], codeCounter := 1, imgCounter := 1,
             imagePreviews := [], codePreviews := []\<rparr>)"

text \<open>The whole of \<open>sendMessage\<close> when nothing else runs while the call is in flight.\<close>

definition sendMessage :: "fetch_outcome \<Rightarrow> chat \<Rightarrow> chat" where
  "sendMessage outcome st =
     (case sendMessage_begin st of
        (None, st') \<Rightarrow> st'
      | (Some loadingAnimation, st') \<Rightarrow> sendMessage_resume loadingAnimation outcome st')"

definition addCodeFromModal :: "chat \<Rightarrow> chat" where
  "addCodeFromModal st =
     (let codeText = codeInput_value st
      in if trim codeText = [] then st
         else
           let placeholder = token ''code'' (codeCounter st);
               st1 = st\<lparr>codeCounter := Suc (codeCounter st)\<rparr>;
               st2 = st1\<lparr>placeholderMap :=
                       AList.update placeholder codeText (placeholderMap st1)\<rparr>;
               st3 = insertPlaceholder placeholder (lastCursorPosition st2) st2;
               st4 = addCodePreview codeText placeholder st3
           in st4\<lparr>codeInput_value := [], codeModal_open := False\<rparr>)"

record clip_item =
  item_type :: string
  item_file :: blob

text \<open>
  \<open>handlePaste\<close> itself only starts one read per image item of the clipboard; the
  page changes in \<open>reader.onload\<close>, once per read that succeeds.
\<close>

definition handlePaste :: "clip_item list \<Rightarrow> blob list" where
  "handlePaste items' =
     map item_file (filter (\<lambda>i. contains (item_type i) ''image'') items')"

definition reader_onload :: "blob \<Rightarrow> chat \<Rightarrow> chat" where
  "reader_onload b st =
     (let base64Url = readAsDataURL b;
          placeholder = token ''img'' (imgCounter st);
          st1 = st\<lparr>imgCounter := Suc (imgCounter st)\<rparr>;
          st2 = st1\<lparr>placeholderMap :=
                  AList.update placeholder base64Url (placeholderMap st1)\<rparr>;
          st3 = insertPlaceholder placeholder (selectionStart st2) st2
      in addImagePreview base64Url placeholder st3)"

definition paste :: "clip_item list \<Rightarrow> chat \<Rightarrow> chat" where
  "paste items' st =
     foldl (\<lambda>s b. reader_onload b s) st (filter blob_readable (handlePaste items'))"

text \<open>
  \<open>downloadPackage\<close> and \<open>downloadDocx\<close> have the same body up to the URL, the file name
  and the text of the failure alert. What runs after the network call reads no variable
  of the page, so each is one step that takes the outcome of its call; a response that is
  \<open>ok\<close> is taken to deliver its blob.
\<close>

definition no_session_notice :: string where
  "no_session_notice = ''No session ID found. Please generate a writeup first.''"

definition download :: "string \<Rightarrow> string \<Rightarrow> string \<Rightarrow> jsval \<Rightarrow> fetch_outcome \<Rightarrow> chat \<Rightarrow> chat"
  where
  "download url fileName failure content outcome st =
     (if \<not> truthy (currentSessionId st) then st\<lparr>alerts := alerts st @ [no_session_notice]\<rparr>
      else
        let st1 = st\<lparr>network := network st @ [DownloadReq url (currentSessionId st) content]\<rparr>
        in case outcome of
             Rejected _ \<Rightarrow> st1\<lparr>alerts := alerts st1 @ [failure]\<rparr>
           | Responded r \<Rightarrow>
               if ok r then st1\<lparr>downloads := downloads st1 @ [(fileName, blob_body r)]\<rparr>
               else st1\<lparr>alerts := alerts st1 @ [failure]\<rparr>)"

definition downloadPackage :: "jsval \<Rightarrow> fetch_outcome \<Rightarrow> chat \<Rightarrow> chat" where
  "downloadPackage =
     download ''http://localhost:8000/download-package'' ''writeup_package.zip''
       ''Failed to download package.''"

definition downloadDocx :: "jsval \<Rightarrow> fetch_outcome \<Rightarrow> chat \<Rightarrow> chat" where
  "downloadDocx =
     download ''http://localhost:8000/download-docx'' ''writeup.docx''
       ''Failed to download .docx file.''"

text \<open>
  The second script of the chat page. It has no \<open>currentSessionId\<close>, no guard on the
  send button and no code previews, it keeps an object URL for a pasted image, and its
  messages hold their text in an inner element. A function that may leave by an
  exception nobody catches returns a \<open>completion\<close>: the state reached, and the error if
  one escaped.
\<close>

datatype 'a completion = Returned 'a | Threw string 'a

fun state_of :: "'a completion \<Rightarrow> 'a" where
  "state_of (Returned st) = st"
| "state_of (Threw e st) = st"

fun threw :: "'a completion \<Rightarrow> bool" where
  "threw (Returned st) = False"
| "threw (Threw e st) = True"

text \<open>
  \<open>URL.createObjectURL(blob)\<close> registers the blob and gives \<open>blob:<origin>/<uuid>\<close>. The
  origin of a page opened from a file is \<open>null\<close>; the serial number of the blob stands
  for the UUID.
\<close>

definition createObjectURL :: "blob \<Rightarrow> chat \<Rightarrow> string \<times> chat" where
  "createObjectURL b st =
     (''blob:null/'' @ string_of_nat (length (blob_urls st)),
      st\<lparr>blob_urls := blob_urls st @ [b]\<rparr>)"

definition appendMessage_alt :: "jsval \<Rightarrow> string \<Rightarrow> chat \<Rightarrow> nat \<times> chat" where
  "appendMessage_alt text sender st =
     (let messageElement =
            \<lparr>el_id = next_id st, el_class = ''message '' @ sender @ ''-message'',
             el_text = innerText_of text, el_buttons = []\<rparr>
      in (next_id st,
          st\<lparr>chatBox := chatBox st @ [messageElement], next_id := Suc (next_id st)\<rparr>))"

definition addDownloadButton :: "nat \<Rightarrow> jsval \<Rightarrow> chat \<Rightarrow> chat" where
  "addDownloadButton messageElement content st =
     st\<lparr>chatBox := map (\<lambda>e. if el_id e = messageElement
                then e\<lparr>el_buttons := el_buttons e @ [(''Download .md'', content)]\<rparr>
                else e) (chatBox st)\<rparr>"

definition sendMessage_alt_begin :: "chat \<Rightarrow> nat option \<times> chat" where
  "sendMessage_alt_begin st =
     (let messageText = trim (messageInput_value st)
      in if messageText = [] then (None, st)
         else
           let st1 = (if isFocusMode st then exitFocusMode st else st);
               st2 = snd (appendMessage_alt (JStr messageText) ''user'' st1);
               st3 = st2\<lparr>messageInput_value := [], selectionStart := 0\<rparr>;
               (thinkingMessage, st4) = appendMessage_alt (JStr ''Thinking...'') ''bot'' st3;
               st5 = st4\<lparr>network := network st4 @
                       [GenerateReq ''http://localhost:8000/generate'' messageText
                          (placeholderMap st4) (categorySelect_value st4)]\<rparr>
           in (Some thinkingMessage, st5))"

text \<open>The lines after the \<open>try\<close> statement.\<close>

definition reset_alt :: "chat \<Rightarrow> chat" where
  "reset_alt st =
     st\<lparr>placeholderMap := [], codeCounter := 1, imgCounter := 1, imagePreviews := []\<rparr>"

text \<open>
  The \<open>catch\<close> block and what follows it. Its \<open>removeChild\<close> is outside any \<open>try\<close>:
  when it throws, the function ends there.
\<close>

definition sendMessage_alt_catch :: "nat \<Rightarrow> string \<Rightarrow> chat \<Rightarrow> chat completion" where
  "sendMessage_alt_catch thinkingMessage message st =
     (case removeChild thinkingMessage (chatBox st) of
        None \<Rightarrow> Threw ''NotFoundError'' st
      | Some els \<Rightarrow>
          Returned (reset_alt
            (snd (appendMessage_alt (JStr (''Error: '' @ message)) ''bot''
                    (st\<lparr>chatBox := els\<rparr>)))))"

definition sendMessage_alt_resume :: "nat \<Rightarrow> fetch_outcome \<Rightarrow> chat \<Rightarrow> chat completion" where
  "sendMessage_alt_resume thinkingMessage outcome st =
     (case outcome of
        Rejected message \<Rightarrow> sendMessage_alt_catch thinkingMessage message st
      | Responded r \<Rightarrow>
          (case removeChild thinkingMessage (chatBox st) of
             None \<Rightarrow> sendMessage_alt_catch thinkingMessage ''NotFoundError'' st
           | Some els \<Rightarrow>
               let st1 = st\<lparr>chatBox := els\<rparr>
               in if \<not> ok r then
                    (case json_body r of
                       SyntaxError message \<Rightarrow> sendMessage_alt_catch thinkingMessage message st1
                     | Parsed errorData \<Rightarrow>
                         sendMessage_alt_catch thinkingMessage
                           (toString (js_or (field errorData ''detail'')
                              (JStr ''An unknown error occurred.''))) st1)
                  else
                    (case json_body r of
                       SyntaxError message \<Rightarrow> sendMessage_alt_catch thinkingMessage message st1
                     | Parsed data \<Rightarrow>
                         let (botMessage, st2) =
                               appendMessage_alt (field data ''generated_text'') ''bot'' st1;
                             st3 = addDownloadButton botMessage (field data ''generated_text'') st2
                         in Returned (reset_alt st3))))"

definition sendMessage_alt :: "fetch_outcome \<Rightarrow> chat \<Rightarrow> chat completion" where
  "sendMessage_alt outcome st =
     (case sendMessage_alt_begin st of
        (None, st') \<Rightarrow> Returned st'
      | (Some thinkingMessage, st') \<Rightarrow> sendMessage_alt_resume thinkingMessage outcome st')"

definition addCodeFromModal_alt :: "chat \<Rightarrow> chat" where
  "addCodeFromModal_alt st =
     (let codeText = codeInput_value st
      in if trim codeText = [] then st
         else
           let placeholder = token ''code'' (codeCounter st);
               st1 = st\<lparr>codeCounter := Suc (codeCounter st)\<rparr>;
               st2 = st1\<lparr>placeholderMap :=
                       AList.update placeholder codeText (placeholderMap st1)\<rparr>;
               st3 = insertPlaceholder placeholder (lastCursorPosition st2) st2
           in st3\<lparr>codeInput_value := [], codeModal_open := False\<rparr>)"

definition paste_item_alt :: "chat \<Rightarrow> clip_item \<Rightarrow> chat" where
  "paste_item_alt st i =
     (if contains (item_type i) ''image'' then
        let placeholder = token ''img'' (imgCounter st);
            st1 = st\<lparr>imgCounter := Suc (imgCounter st)\<rparr>;
            (tempUrl, st2) = createObjectURL (item_file i) st1;
            st3 = st2\<lparr>placeholderMap := AList.update placeholder tempUrl (placeholderMap st2)\<rparr>;
            st4 = insertPlaceholder placeholder (selectionStart st3) st3
        in addImagePreview tempUrl placeholder st4
      else st)"

definition handlePaste_alt :: "clip_item list \<Rightarrow> chat \<Rightarrow> chat" where
  "handlePaste_alt items' st = foldl paste_item_alt st items'"

section \<open>The form script (frontend2)\<close>

datatype item_kind = FileItem | CodeItem

text \<open>The type name that the delete button of an item passes to \<open>reindexPlaceholders\<close>.\<close>

fun type_of :: "item_kind \<Rightarrow> string" where
  "type_of FileItem = ''img''"
| "type_of CodeItem = ''code''"

text \<open>
  One \<open>.mapping-item\<close> of the container: its label, its file input or text area with the
  \<open>data-placeholder\<close> attribute, the file chosen
  (\<open>input.files[0]\<close>), and its preview (\<open>None\<close> while an image item has none).
\<close>

record mapping_item =
  label_text :: string
  kind :: item_kind
  data_placeholder :: string
  files0 :: "blob option"
  textarea_value :: string
  preview :: "string option"

record form =
  promptEl_value :: string
  categoryEl_value :: string
  mappingsContainer :: "mapping_item list"
  imageCounter :: nat
  form_codeCounter :: nat
  form_currentSessionId :: jsval
  generateBtn_disabled :: bool
  outputEl_textContent :: string
  downloadZipBtn_disabled :: bool
  downloadDocxBtn_disabled :: bool
  form_network :: "request list"
  form_alerts :: "string list"
  form_downloads :: "(string \<times> string) list"
  form_blob_urls :: "blob list"

text \<open>
  The page's markup is not part of the sources: the category it preselects and whether it
  disables the download buttons are parameters.
\<close>

definition form_init :: "string \<Rightarrow> bool \<Rightarrow> form" where
  "form_init category disabled =
     \<lparr>promptEl_value = [], categoryEl_value = category, mappingsContainer = [],
      imageCounter = 1, form_codeCounter = 1, form_currentSessionId = JNull,
      generateBtn_disabled = False, outputEl_textContent = [],
      downloadZipBtn_disabled = disabled, downloadDocxBtn_disabled = disabled,
      form_network = [], form_alerts = [], form_downloads = [], form_blob_urls = []\<rparr>"

text \<open>
  Whether \<open>item.querySelector(`[data-placeholder^="[[${type}"]`)\<close> finds the input of the
  item: its \<open>data-placeholder\<close> starts with \<open>[[\<close> and the type.
\<close>

definition has_type :: "string \<Rightarrow> mapping_item \<Rightarrow> bool" where
  "has_type type item = prefix (''[['' @ type) (data_placeholder item)"

text \<open>
  The \<open>forEach\<close> of \<open>reindexPlaceholders\<close>: the items in document order, with the local
  \<open>counter\<close>; it returns the items and the final counter.
\<close>

fun reindex_items :: "string \<Rightarrow> nat \<Rightarrow> mapping_item list \<Rightarrow> mapping_item list \<times> nat" where
  "reindex_items type counter [] = ([], counter)"
| "reindex_items type counter (item # rest) =
     (if has_type type item then
        let newPlaceholder = token type counter;
            (rest', counter') = reindex_items type (Suc counter) rest
        in (item\<lparr>label_text := newPlaceholder, data_placeholder := newPlaceholder\<rparr> # rest',
            counter')
      else
        let (rest', counter') = reindex_items type counter rest
        in (item # rest', counter'))"

definition reindexPlaceholders :: "string \<Rightarrow> form \<Rightarrow> form" where
  "reindexPlaceholders type st =
     (let (items', counter) = reindex_items type 1 (mappingsContainer st);
          st1 = st\<lparr>mappingsContainer := items'\<rparr>
      in if type = ''img'' then st1\<lparr>imageCounter := counter\<rparr>
         else if type = ''code'' then st1\<lparr>form_codeCounter := counter\<rparr>
         else st1)"

definition addImageBtn_click :: "form \<Rightarrow> form" where
  "addImageBtn_click st =
     (let placeholder = token ''img'' (imageCounter st);
          st1 = st\<lparr>imageCounter := Suc (imageCounter st)\<rparr>;
          div' = \<lparr>label_text = placeholder, kind = FileItem, data_placeholder = placeholder,
                  files0 = None, textarea_value = [], preview = None\<rparr>
      in st1\<lparr>mappingsContainer := mappingsContainer st1 @ [div']\<rparr>)"

definition addCodeBtn_click :: "form \<Rightarrow> form" where
  "addCodeBtn_click st =
     (let placeholder = token ''code'' (form_codeCounter st);
          st1 = st\<lparr>form_codeCounter := Suc (form_codeCounter st)\<rparr>;
          div' = \<lparr>label_text = placeholder, kind = CodeItem, data_placeholder = placeholder,
                  files0 = None, textarea_value = [], preview = Some []\<rparr>
      in st1\<lparr>mappingsContainer := mappingsContainer st1 @ [div']\<rparr>)"

text \<open>
  The click on the delete button of the item at index \<open>i\<close> of the container:
  \<open>div.remove()\<close>, then \<open>reindexPlaceholders\<close> with the type of the item's kind.
\<close>

definition deleteBtn_click :: "nat \<Rightarrow> form \<Rightarrow> form" where
  "deleteBtn_click i st =
     (if i < length (mappingsContainer st) then
        reindexPlaceholders (type_of (kind (mappingsContainer st ! i)))
          (st\<lparr>mappingsContainer :=
                take i (mappingsContainer st) @ drop (Suc i) (mappingsContainer st)\<rparr>)
      else st)"

definition form_createObjectURL :: "blob \<Rightarrow> form \<Rightarrow> string \<times> form" where
  "form_createObjectURL b st =
     (''blob:null/'' @ string_of_nat (length (form_blob_urls st)),
      st\<lparr>form_blob_urls := form_blob_urls st @ [b]\<rparr>)"

text \<open>Replacing the item at index \<open>i\<close> of the container, if there is one.\<close>

definition update_item :: "nat \<Rightarrow> (mapping_item \<Rightarrow> mapping_item) \<Rightarrow> form \<Rightarrow> form" where
  "update_item i f st =
     (if i < length (mappingsContainer st)
      then st\<lparr>mappingsContainer := (mappingsContainer st)[i := f (mappingsContainer st ! i)]\<rparr>
      else st)"

text \<open>The \<open>change\<close> event of the file input of item \<open>i\<close>, with the file now chosen.\<close>

definition input_change :: "nat \<Rightarrow> blob option \<Rightarrow> form \<Rightarrow> form" where
  "input_change i chosen st =
     (case chosen of
        Some b \<Rightarrow>
          let (url, st1) = form_createObjectURL b st
          in update_item i (\<lambda>item. item\<lparr>files0 := Some b, preview := Some url\<rparr>) st1
      | None \<Rightarrow> update_item i (\<lambda>item. item\<lparr>files0 := None, preview := Some []\<rparr>) st)"

text \<open>The \<open>input\<close> event of the text area of item \<open>i\<close>, with its new value.\<close>

definition textarea_input :: "nat \<Rightarrow> string \<Rightarrow> form \<Rightarrow> form" where
  "textarea_input i v st =
     update_item i (\<lambda>item. item\<lparr>textarea_value := v, preview := Some v\<rparr>) st"

text \<open>The file inputs that hold a file, with their placeholders, in document order.\<close>

fun chosen_files :: "mapping_item list \<Rightarrow> (string \<times> blob) list" where
  "chosen_files [] = []"
| "chosen_files (item # rest) =
     (case (kind item, files0 item) of
        (FileItem, Some b) \<Rightarrow> (data_placeholder item, b) # chosen_files rest
      | _ \<Rightarrow> chosen_files rest)"

definition textarea_mappings :: "mapping_item list \<Rightarrow> (string \<times> string) list" where
  "textarea_mappings items' =
     foldl (\<lambda>m item. AList.update (data_placeholder item) (textarea_value item) m) []
       (filter (\<lambda>item. kind item = CodeItem) items')"

definition file_mappings ::
  "(string \<times> string) list \<Rightarrow> (string \<times> blob) list \<Rightarrow> (string \<times> string) list" where
  "file_mappings mappings fs =
     foldl (\<lambda>m (placeholder, b). AList.update placeholder (readAsDataURL b) m) mappings fs"

text \<open>The mappings object that the click on the generate button sends.\<close>

definition build_mappings :: "mapping_item list \<Rightarrow> (string \<times> string) list" where
  "build_mappings items' = file_mappings (textarea_mappings items') (chosen_files items')"

definition generate_catch :: "string \<Rightarrow> form \<Rightarrow> form" where
  "generate_catch message st = st\<lparr>outputEl_textContent := ''Error: '' @ message\<rparr>"

text \<open>
  The click on the generate button; the button is disabled while the handler runs. A file
  that cannot be read rejects with a progress event, which has no \<open>message\<close>.
\<close>

definition generateBtn_click :: "fetch_outcome \<Rightarrow> form \<Rightarrow> form" where
  "generateBtn_click outcome st =
     (let st1 = st\<lparr>generateBtn_disabled := True, outputEl_textContent := ''Generating...''\<rparr>;
          prompt = promptEl_value st1;
          category = categoryEl_value st1;
          fs = chosen_files (mappingsContainer st1);
          st2 =
            (if \<not> list_all (\<lambda>(placeholder, b). blob_readable b) fs
             then generate_catch (toString JUndefined) st1
             else
               let mappings = build_mappings (mappingsContainer st1);
                   st1' = st1\<lparr>form_network := form_network st1 @
                            [GenerateReq ''http://127.0.0.1:8000/generate'' prompt mappings
                               category]\<rparr>
               in case outcome of
                    Rejected message \<Rightarrow> generate_catch message st1'
                  | Responded r \<Rightarrow>
                      if \<not> ok r then
                        (case json_body r of
                           SyntaxError message \<Rightarrow> generate_catch message st1'
                         | Parsed error \<Rightarrow>
                             generate_catch
                               (toString (js_or (field error ''detail'')
                                  (JStr ''Failed to generate writeup.''))) st1')
                      else
                        (case json_body r of
                           SyntaxError message \<Rightarrow> generate_catch message st1'
                         | Parsed result \<Rightarrow>
                             st1'\<lparr>outputEl_textContent :=
                                     textContent_of (field result ''generated_text''),
                                   form_currentSessionId := field result ''session_id'',
                                   downloadZipBtn_disabled := False,
                                   downloadDocxBtn_disabled := False\<rparr>))
      in st2\<lparr>generateBtn_disabled := False\<rparr>)"

definition handleDownload :: "string \<Rightarrow> string \<Rightarrow> fetch_outcome \<Rightarrow> form \<Rightarrow> form" where
  "handleDownload url fileName outcome st =
     (if \<not> truthy (form_currentSessionId st) then st
      else
        let st1 = st\<lparr>form_network := form_network st @
                    [DownloadReq url (form_currentSessionId st)
                       (JStr (outputEl_textContent st))]\<rparr>;
            alert = (\<lambda>message. st1\<lparr>form_alerts := form_alerts st1 @ [''Error: '' @ message]\<rparr>)
        in case outcome of
             Rejected message \<Rightarrow> alert message
           | Responded r \<Rightarrow>
               if \<not> ok r then
                 (case json_body r of
                    SyntaxError message \<Rightarrow> alert message
                  | Parsed error \<Rightarrow>
                      alert (toString (js_or (field error ''detail'') (JStr ''Download failed''))))
               else st1\<lparr>form_downloads := form_downloads st1 @ [(fileName, blob_body r)]\<rparr>)"

text \<open>A disabled button gets no click.\<close>

definition downloadZipBtn_click :: "fetch_outcome \<Rightarrow> form \<Rightarrow> form" where
  "downloadZipBtn_click outcome st =
     (if downloadZipBtn_disabled st then st
      else handleDownload ''http://127.0.0.1:8000/download-package'' ''writeup_package.zip''
             outcome st)"

definition downloadDocxBtn_click :: "fetch_outcome \<Rightarrow> form \<Rightarrow> form" where
  "downloadDocxBtn_click outcome st =
     (if downloadDocxBtn_disabled st then st
      else handleDownload ''http://127.0.0.1:8000/download-docx'' ''writeup.docx'' outcome st)"

section \<open>Runs of events\<close>

text \<open>
  The events that mint a token. On the chat page: a paste of clipboard items (in the
  first script every read that succeeds has called \<open>reader.onload\<close> before the next
  event) and a click on the modal's add button, with the text then in the code input.
  On the form page: a click on one of the two add buttons.
\<close>

datatype chat_event = Paste "clip_item list" | AddCode string

fun chat_step :: "chat \<Rightarrow> chat_event \<Rightarrow> chat" where
  "chat_step st (Paste items') = paste items' st"
| "chat_step st (AddCode text) = addCodeFromModal (st\<lparr>codeInput_value := text\<rparr>)"

text \<open>How many image reads an event completes, and how many code blocks it adds.\<close>

fun images_of :: "chat_event \<Rightarrow> nat" where
  "images_of (Paste items') = length (filter blob_readable (handlePaste items'))"
| "images_of (AddCode text) = 0"

fun codes_of :: "chat_event \<Rightarrow> nat" where
  "codes_of (Paste items') = 0"
| "codes_of (AddCode text) = (if trim text = [] then 0 else 1)"

datatype form_event = AddImageClick | AddCodeClick

fun form_step :: "form \<Rightarrow> form_event \<Rightarrow> form" where
  "form_step st AddImageClick = addImageBtn_click st"
| "form_step st AddCodeClick = addCodeBtn_click st"

text \<open>
  The items of the form page are well formed when the placeholder of each has the type of
  its kind and not the other type; every handler keeps them so.
\<close>

definition item_wf :: "mapping_item \<Rightarrow> bool" where
  "item_wf item =
     ((has_type ''img'' item \<longleftrightarrow> kind item = FileItem) \<and>
      (has_type ''code'' item \<longleftrightarrow> kind item = CodeItem))"

definition form_wf :: "form \<Rightarrow> bool" where
  "form_wf st = list_all item_wf (mappingsContainer st)"

text \<open>A base64 data URL, and the keys of the Placeholder Map that are image tokens.\<close>

definition is_data_url :: "string \<Rightarrow> bool" where
  "is_data_url s = (prefix ''data:'' s \<and> contains s '';base64,'')"

definition is_img_token :: "string \<Rightarrow> bool" where
  "is_img_token k = prefix ''[[img'' k"

section \<open>Sample inputs\<close>

text \<open>A pasted PNG, some responses of the generation endpoint, and a few pages.\<close>

definition png_item :: clip_item where
  "png_item =
     \<lparr>item_type = ''image/png'',
      item_file = \<lparr>blob_type = ''image/png'', blob_base64 = ''AAA'', blob_readable = True\<rparr>\<rparr>"

definition generated :: response where
  "generated =
     \<lparr>status = 200,
      json_body = Parsed [(''session_id'', JStr ''s1''), (''generated_text'', JStr ''## Solution'')],
      blob_body = []\<rparr>"

definition detail_response :: "nat \<Rightarrow> string \<Rightarrow> response" where
  "detail_response code detail =
     \<lparr>status = code, json_body = Parsed [(''detail'', JStr detail)], blob_body = []\<rparr>"

definition empty_response :: "nat \<Rightarrow> response" where
  "empty_response code =
     \<lparr>status = code, json_body = SyntaxError ''Unexpected end of JSON input'', blob_body = []\<rparr>"

definition hello :: chat where
  "hello = (chat_init ''web'')\<lparr>messageInput_value := ''hello''\<rparr>"

definition pasted_alt :: chat where
  "pasted_alt = handlePaste_alt [png_item] (chat_init ''web'')"

definition four_items :: form where
  "four_items =
     foldl form_step (form_init ''web'' True)
       [AddImageClick, AddCodeClick, AddImageClick, AddImageClick]"

section \<open>Properties\<close>

lemma substring_0: "substring s 0 n = take n s"
  by (simp add: substring_def Let_def min_def)

lemma substring_from_drop: "substring_from s n = drop n s"
  by (simp add: substring_from_def substring_def Let_def min_def max_def)

lemma substring_in_range:
  "a \<le> b \<Longrightarrow> b \<le> length s \<Longrightarrow> substring s a b = take (b - a) (drop a s)"
  by (simp add: substring_def Let_def min_def max_def)

subsection \<open>Strings and tokens\<close>

lemma trim_blank: "trim s = [] \<longleftrightarrow> (\<forall>c\<in>set s. js_whitespace c)"
proof -
  have "(\<forall>x\<in>set (dropWhile js_whitespace s). js_whitespace x)
          \<longleftrightarrow> dropWhile js_whitespace s = []"
  proof
    assume a: "\<forall>x\<in>set (dropWhile js_whitespace s). js_whitespace x"
    show "dropWhile js_whitespace s = []"
    proof (rule ccontr)
      assume n: "dropWhile js_whitespace s \<noteq> []"
      then have "\<not> js_whitespace (hd (dropWhile js_whitespace s))"
        by (rule hd_dropWhile)
      moreover have "hd (dropWhile js_whitespace s) \<in> set (dropWhile js_whitespace s)"
        using n by simp
      ultimately show False using a by blast
    qed
  next
    assume "dropWhile js_whitespace s = []"
    then show "\<forall>x\<in>set (dropWhile js_whitespace s). js_whitespace x"
      by (simp only: list.set ball_empty)
  qed
  then show ?thesis
    by (simp add: trim_def dropWhile_eq_Nil_conv)
qed

lemma digit_char_inj: "a < 10 \<Longrightarrow> b < 10 \<Longrightarrow> digit_char a = digit_char b \<Longrightarrow> a = b"
proof -
  assume a: "a < 10" and b: "b < 10" and e: "digit_char a = digit_char b"
  have d: "distinct ''0123456789''" by simp
  have "a < length ''0123456789''" "b < length ''0123456789''" using a b by simp_all
  with d e show "a = b" unfolding digit_char_def by (simp only: nth_eq_iff_index_eq)
qed

lemma string_of_nat_length: "length (string_of_nat n) = 1 \<longleftrightarrow> n < 10"
proof (cases "n < 10")
  case True
  then show ?thesis by (simp add: string_of_nat.simps)
next
  case False
  have "string_of_nat (n div 10) \<noteq> []"
    by (subst string_of_nat.simps) simp
  then show ?thesis using False
    by (subst string_of_nat.simps) (simp)
qed

lemma string_of_nat_inj: "string_of_nat n = string_of_nat m \<Longrightarrow> n = m"
proof (induction n arbitrary: m rule: string_of_nat.induct)
  case (1 n)
  show ?case
  proof (cases "n < 10")
    case True
    then have "length (string_of_nat m) = 1" using "1.prems" string_of_nat_length[of n] by simp
    then have m: "m < 10" using string_of_nat_length[of m] by simp
    then show ?thesis using True "1.prems" digit_char_inj
      by (simp add: string_of_nat.simps)
  next
    case False
    then have "length (string_of_nat m) \<noteq> 1" using "1.prems" string_of_nat_length[of n] by simp
    then have m: "\<not> m < 10" using string_of_nat_length[of m] by simp
    have "string_of_nat (n div 10) @ [digit_char (n mod 10)]
            = string_of_nat (m div 10) @ [digit_char (m mod 10)]"
      using "1.prems" False m string_of_nat.simps[of n] string_of_nat.simps[of m] by simp
    then have a: "string_of_nat (n div 10) = string_of_nat (m div 10)"
      and b: "digit_char (n mod 10) = digit_char (m mod 10)" by simp_all
    from a have "n div 10 = m div 10" using "1.IH" False by simp
    moreover from b have "n mod 10 = m mod 10" by (rule digit_char_inj[rotated 2]) simp_all
    ultimately show ?thesis by (metis div_mult_mod_eq)
  qed
qed

lemma token_inj: "token t n = token t m \<Longrightarrow> n = m"
  by (simp add: token_def string_of_nat_inj)

lemma distinct_tokens: "distinct (map (token t) [a..<b])"
  by (simp add: distinct_map inj_on_def) (blast dest: token_inj)

subsection \<open>Minting runs\<close>

lemma ip_fields [simp]:
  "imgCounter (insertPlaceholder p n st) = imgCounter st"
  "codeCounter (insertPlaceholder p n st) = codeCounter st"
  "imagePreviews (insertPlaceholder p n st) = imagePreviews st"
  "codePreviews (insertPlaceholder p n st) = codePreviews st"
  "placeholderMap (insertPlaceholder p n st) = placeholderMap st"
  by (simp_all add: insertPlaceholder_def Let_def)

lemma reader_onload_fields:
  "imgCounter (reader_onload b st) = Suc (imgCounter st)"
  "codeCounter (reader_onload b st) = codeCounter st"
  "imagePreviews (reader_onload b st) = imagePreviews st @ [(readAsDataURL b, token ''img'' (imgCounter st))]"
  "codePreviews (reader_onload b st) = codePreviews st"
  by (simp_all add: reader_onload_def Let_def addImagePreview_def)

lemma addCode_fields:
  "imgCounter (addCodeFromModal st) = imgCounter st"
  "imagePreviews (addCodeFromModal st) = imagePreviews st"
  "codeCounter (addCodeFromModal st) = (if trim (codeInput_value st) = [] then codeCounter st else Suc (codeCounter st))"
  "codePreviews (addCodeFromModal st) = (if trim (codeInput_value st) = [] then codePreviews st else codePreviews st @ [(codeInput_value st, token ''code'' (codeCounter st))])"
  by (simp_all add: addCodeFromModal_def Let_def addCodePreview_def)

lemma upt_split: "[a..<a + (n + m)] = [a..<a + n] @ [a + n..<a + n + m]" for a n m :: nat
  using upt_add_eq_append [of a "a + n" m] by (simp only: add.assoc le_add1)

lemma onload_run:
  "imgCounter (foldl (\<lambda>s b. reader_onload b s) st bs) = imgCounter st + length bs
  \<and> codeCounter (foldl (\<lambda>s b. reader_onload b s) st bs) = codeCounter st
  \<and> codePreviews (foldl (\<lambda>s b. reader_onload b s) st bs) = codePreviews st
  \<and> map snd (imagePreviews (foldl (\<lambda>s b. reader_onload b s) st bs))
      = map snd (imagePreviews st) @ map (token ''img'') [imgCounter st..<imgCounter st + length bs]"
proof (induction bs arbitrary: st)
  case Nil
  show ?case by simp
next
  case (Cons b bs)
  have u: "[imgCounter st..<imgCounter st + (1 + length bs)]
             = [imgCounter st..<imgCounter st + 1] @ [imgCounter st + 1..<imgCounter st + 1 + length bs]"
    by (rule upt_split)
  have u1: "[imgCounter st..<imgCounter st + 1] = [imgCounter st]" by simp
  show ?case
    using Cons.IH [of "reader_onload b st"] u
    by (simp only: foldl_Cons reader_onload_fields map_append list.map snd_conv
          append_assoc append.simps length_Cons add_Suc_right add_Suc plus_1_eq_Suc u1
          One_nat_def add_0_right Nat.add_0_right) simp
qed

lemma chat_step_fields:
  "imgCounter (chat_step st e) = imgCounter st + images_of e"
  "codeCounter (chat_step st e) = codeCounter st + codes_of e"
  "map snd (imagePreviews (chat_step st e)) = map snd (imagePreviews st) @ map (token ''img'') [imgCounter st..<imgCounter st + images_of e]"
  "map snd (codePreviews (chat_step st e)) = map snd (codePreviews st) @ map (token ''code'') [codeCounter st..<codeCounter st + codes_of e]"
  by (cases e; simp add: paste_def onload_run addCode_fields)+

lemma chat_run:
  "imgCounter (foldl chat_step st es) = imgCounter st + sum_list (map images_of es)
  \<and> codeCounter (foldl chat_step st es) = codeCounter st + sum_list (map codes_of es)
  \<and> map snd (imagePreviews (foldl chat_step st es))
      = map snd (imagePreviews st) @ map (token ''img'') [imgCounter st..<imgCounter st + sum_list (map images_of es)]
  \<and> map snd (codePreviews (foldl chat_step st es))
      = map snd (codePreviews st) @ map (token ''code'') [codeCounter st..<codeCounter st + sum_list (map codes_of es)]"
proof (induction es arbitrary: st)
  case Nil
  show ?case by simp
next
  case (Cons e es)
  let ?st = "chat_step st e"
  note ih = Cons.IH [of ?st]
  have a: "imgCounter (foldl chat_step st (e # es)) = imgCounter st + sum_list (map images_of (e # es))"
    using ih by (simp add: chat_step_fields)
  have b: "codeCounter (foldl chat_step st (e # es)) = codeCounter st + sum_list (map codes_of (e # es))"
    using ih by (simp add: chat_step_fields)
  have c: "map snd (imagePreviews (foldl chat_step st (e # es)))
      = map snd (imagePreviews st) @ map (token ''img'') [imgCounter st..<imgCounter st + sum_list (map images_of (e # es))]"
    using ih upt_split [of "imgCounter st" "images_of e" "sum_list (map images_of es)"]
    by (simp add: chat_step_fields)
  have d: "map snd (codePreviews (foldl chat_step st (e # es)))
      = map snd (codePreviews st) @ map (token ''code'') [codeCounter st..<codeCounter st + sum_list (map codes_of (e # es))]"
    using ih upt_split [of "codeCounter st" "codes_of e" "sum_list (map codes_of es)"]
    by (simp add: chat_step_fields)
  show ?case using a b c d by blast
qed

subsection \<open>Renumbering\<close>

lemma has_type_token: "has_type t (item\<lparr>label_text := l, data_placeholder := token t c\<rparr>)"
  by (simp add: has_type_def token_def)

lemma has_type_token_other:
  "has_type ''img'' (item\<lparr>label_text := l, data_placeholder := token ''code'' c\<rparr>) = False"
  "has_type ''code'' (item\<lparr>label_text := l, data_placeholder := token ''img'' c\<rparr>) = False"
  by (simp_all add: has_type_def token_def)

lemma reindex_Cons:
  "reindex_items t c (x # xs) =
     (if has_type t x
      then (x\<lparr>label_text := token t c, data_placeholder := token t c\<rparr>
              # fst (reindex_items t (Suc c) xs), snd (reindex_items t (Suc c) xs))
      else (x # fst (reindex_items t c xs), snd (reindex_items t c xs)))"
  by (simp add: Let_def case_prod_beta)

lemma reindex_snd:
  "snd (reindex_items t c xs) = c + length (filter (has_type t) xs)"
  by (induction xs arbitrary: c) (simp_all add: reindex_Cons del: reindex_items.simps(2))

lemma reindex_same:
  "map data_placeholder (filter (has_type t) (fst (reindex_items t c xs)))
     = map (token t) [c..<c + length (filter (has_type t) xs)]
   \<and> map label_text (filter (has_type t) (fst (reindex_items t c xs)))
     = map (token t) [c..<c + length (filter (has_type t) xs)]"
proof (induction xs arbitrary: c)
  case Nil
  show ?case by simp
next
  case (Cons x xs)
  show ?case
  proof (cases "has_type t x")
    case True
    have u: "[c..<c + Suc (length (filter (has_type t) xs))]
               = c # [Suc c..<Suc c + length (filter (has_type t) xs)]"
      using upt_conv_Cons [of c "c + Suc (length (filter (has_type t) xs))"] by simp
    show ?thesis using True Cons.IH [of "Suc c"] u
      by (simp add: reindex_Cons has_type_token del: reindex_items.simps(2))
  next
    case False
    then show ?thesis using Cons.IH [of c]
      by (simp add: reindex_Cons del: reindex_items.simps(2))
  qed
qed

lemma reindex_other:
  "filter (\<lambda>item. \<not> has_type t item) (fst (reindex_items t c xs))
     = filter (\<lambda>item. \<not> has_type t item) xs"
  by (induction xs arbitrary: c)
     (simp_all add: reindex_Cons has_type_token del: reindex_items.simps(2))

lemma reindex_frame:
  "map kind (fst (reindex_items t c xs)) = map kind xs
   \<and> map files0 (fst (reindex_items t c xs)) = map files0 xs
   \<and> map textarea_value (fst (reindex_items t c xs)) = map textarea_value xs
   \<and> map preview (fst (reindex_items t c xs)) = map preview xs"
  by (induction xs arbitrary: c) (simp_all add: reindex_Cons del: reindex_items.simps(2))

lemma reindex_wf:
  "t = ''img'' \<or> t = ''code'' \<Longrightarrow> list_all item_wf xs \<Longrightarrow> list_all item_wf (fst (reindex_items t c xs))"
proof (induction xs arbitrary: c)
  case Nil
  show ?case by simp
next
  case (Cons x xs)
  then show ?case
    by (auto simp add: reindex_Cons item_wf_def has_type_token has_type_token_other
          simp del: reindex_items.simps(2))
qed

lemma wf_filter:
  "list_all item_wf xs \<Longrightarrow> filter (\<lambda>item. kind item = k) xs = filter (has_type (type_of k)) xs"
proof (induction xs)
  case Nil
  show ?case by simp
next
  case (Cons x xs)
  then show ?case by (cases k; cases "kind x"; simp add: item_wf_def)
qed

lemma form_step_fields:
  "imageCounter (form_step st e) = imageCounter st + (if e = AddImageClick then 1 else 0)"
  "form_codeCounter (form_step st e) = form_codeCounter st + (if e = AddCodeClick then 1 else 0)"
  "map data_placeholder (filter (\<lambda>item. kind item = FileItem) (mappingsContainer (form_step st e)))
     = map data_placeholder (filter (\<lambda>item. kind item = FileItem) (mappingsContainer st))
       @ (if e = AddImageClick then [token ''img'' (imageCounter st)] else [])"
  "map data_placeholder (filter (\<lambda>item. kind item = CodeItem) (mappingsContainer (form_step st e)))
     = map data_placeholder (filter (\<lambda>item. kind item = CodeItem) (mappingsContainer st))
       @ (if e = AddCodeClick then [token ''code'' (form_codeCounter st)] else [])"
  by (cases e; simp add: addImageBtn_click_def addCodeBtn_click_def Let_def)+

lemma form_run:
  "imageCounter (foldl form_step st es) = imageCounter st + length (filter (\<lambda>e. e = AddImageClick) es)
  \<and> form_codeCounter (foldl form_step st es) = form_codeCounter st + length (filter (\<lambda>e. e = AddCodeClick) es)
  \<and> map data_placeholder (filter (\<lambda>item. kind item = FileItem) (mappingsContainer (foldl form_step st es)))
      = map data_placeholder (filter (\<lambda>item. kind item = FileItem) (mappingsContainer st))
        @ map (token ''img'') [imageCounter st..<imageCounter st + length (filter (\<lambda>e. e = AddImageClick) es)]
  \<and> map data_placeholder (filter (\<lambda>item. kind item = CodeItem) (mappingsContainer (foldl form_step st es)))
      = map data_placeholder (filter (\<lambda>item. kind item = CodeItem) (mappingsContainer st))
        @ map (token ''code'') [form_codeCounter st..<form_codeCounter st + length (filter (\<lambda>e. e = AddCodeClick) es)]"
proof (induction es arbitrary: st)
  case Nil
  show ?case by simp
next
  case (Cons e es)
  note ih = Cons.IH [of "form_step st e"]
  have u: "\<And>a n. [a..<a + Suc n] = a # [Suc a..<Suc a + n]"
    by (simp add: upt_conv_Cons)
  show ?case
  proof (cases e)
    case AddImageClick
    then show ?thesis using ih u by (simp add: form_step_fields del: form_step.simps upt_Suc)
  next
    case AddCodeClick
    then show ?thesis using ih u by (simp add: form_step_fields del: form_step.simps upt_Suc)
  qed
qed

lemma wf_filter_not:
  "list_all item_wf xs \<Longrightarrow>
   filter (\<lambda>item. kind item \<noteq> k) xs = filter (\<lambda>item. \<not> has_type (type_of k) item) xs"
proof (induction xs)
  case Nil
  show ?case by simp
next
  case (Cons x xs)
  then show ?case by (cases k; cases "kind x"; simp add: item_wf_def)
qed

lemma wf_remove: "list_all item_wf xs \<Longrightarrow> list_all item_wf (take i xs @ drop (Suc i) xs)"
  by (auto simp add: list_all_iff dest: in_set_takeD in_set_dropD)

lemma type_of_cases: "type_of k = ''img'' \<or> type_of k = ''code''"
  by (cases k) simp_all

lemma deleteBtn_click_items:
  "i < length (mappingsContainer st) \<Longrightarrow>
   mappingsContainer (deleteBtn_click i st)
     = fst (reindex_items (type_of (kind (mappingsContainer st ! i))) 1
         (take i (mappingsContainer st) @ drop (Suc i) (mappingsContainer st)))"
  by (simp add: deleteBtn_click_def reindexPlaceholders_def case_prod_beta Let_def)

lemma deleteBtn_click_counters:
  "i < length (mappingsContainer st) \<Longrightarrow>
   (case kind (mappingsContainer st ! i) of
      FileItem \<Rightarrow> imageCounter (deleteBtn_click i st)
    | CodeItem \<Rightarrow> form_codeCounter (deleteBtn_click i st))
     = snd (reindex_items (type_of (kind (mappingsContainer st ! i))) 1
         (take i (mappingsContainer st) @ drop (Suc i) (mappingsContainer st)))
   \<and> (case kind (mappingsContainer st ! i) of
      FileItem \<Rightarrow> form_codeCounter (deleteBtn_click i st) = form_codeCounter st
    | CodeItem \<Rightarrow> imageCounter (deleteBtn_click i st) = imageCounter st)"
  by (cases "kind (mappingsContainer st ! i)")
     (simp_all add: deleteBtn_click_def reindexPlaceholders_def case_prod_beta Let_def)

lemma update_item_wf:
  "(\<And>item. item_wf (f item) = item_wf item) \<Longrightarrow> form_wf st \<Longrightarrow> form_wf (update_item i f st)"
  by (auto simp add: form_wf_def update_item_def list_all_iff dest!: set_update_subset_insert [THEN subsetD])

lemma form_wf_preserved:
  "form_wf (form_init c d)"
  "form_wf st \<Longrightarrow> form_wf (addImageBtn_click st)"
  "form_wf st \<Longrightarrow> form_wf (addCodeBtn_click st)"
  "form_wf st \<Longrightarrow> form_wf (input_change i chosen st)"
  "form_wf st \<Longrightarrow> form_wf (textarea_input i v st)"
  "form_wf st \<Longrightarrow> form_wf (generateBtn_click outcome st)"
  "form_wf st \<Longrightarrow> form_wf (handleDownload url fileName outcome st)"
proof -
  show "form_wf (form_init c d)" by (simp add: form_wf_def form_init_def)
  show "form_wf st \<Longrightarrow> form_wf (addImageBtn_click st)"
    by (simp add: form_wf_def addImageBtn_click_def Let_def item_wf_def has_type_def token_def)
  show "form_wf st \<Longrightarrow> form_wf (addCodeBtn_click st)"
    by (simp add: form_wf_def addCodeBtn_click_def Let_def item_wf_def has_type_def token_def)
  show "form_wf st \<Longrightarrow> form_wf (input_change i chosen st)"
  proof (cases chosen)
    case None
    assume "form_wf st"
    then have "form_wf (update_item i (\<lambda>item. item\<lparr>files0 := None, preview := Some []\<rparr>) st)"
      by (rule update_item_wf [rotated]) (simp add: item_wf_def has_type_def)
    then show ?thesis using None by (simp add: input_change_def)
  next
    case (Some b)
    assume "form_wf st"
    then have "form_wf (st\<lparr>form_blob_urls := form_blob_urls st @ [b]\<rparr>)"
      by (simp add: form_wf_def)
    then have "form_wf (update_item i
        (\<lambda>item. item\<lparr>files0 := Some b,
           preview := Some (''blob:null/'' @ string_of_nat (length (form_blob_urls st)))\<rparr>)
        (st\<lparr>form_blob_urls := form_blob_urls st @ [b]\<rparr>))"
      by (rule update_item_wf [rotated]) (simp add: item_wf_def has_type_def)
    then show ?thesis using Some by (simp add: input_change_def form_createObjectURL_def)
  qed
  show "form_wf st \<Longrightarrow> form_wf (textarea_input i v st)"
    by (auto simp add: textarea_input_def item_wf_def has_type_def intro!: update_item_wf)
  have m: "mappingsContainer (generateBtn_click outcome st) = mappingsContainer st"
    by (simp add: generateBtn_click_def Let_def generate_catch_def
          split: fetch_outcome.split json_result.split)
  show "form_wf st \<Longrightarrow> form_wf (generateBtn_click outcome st)"
    by (simp add: form_wf_def m)
  have h: "mappingsContainer (handleDownload url fileName outcome st) = mappingsContainer st"
    by (simp add: handleDownload_def Let_def split: fetch_outcome.split json_result.split)
  show "form_wf st \<Longrightarrow> form_wf (handleDownload url fileName outcome st)"
    by (simp add: form_wf_def h)
qed

subsection \<open>The reset after a submission\<close>

lemma sendMessage_resume_resets:
  "placeholderMap (sendMessage_resume l outcome st) = []
   \<and> codeCounter (sendMessage_resume l outcome st) = 1
   \<and> imgCounter (sendMessage_resume l outcome st) = 1
   \<and> imagePreviews (sendMessage_resume l outcome st) = []
   \<and> codePreviews (sendMessage_resume l outcome st) = []
   \<and> \<not> sendButton_disabled (sendMessage_resume l outcome st)"
  by (simp add: sendMessage_resume_def Let_def)

lemma sendMessage_alt_catch_resets:
  "sendMessage_alt_catch t m st = Returned st' \<Longrightarrow>
     placeholderMap st' = [] \<and> codeCounter st' = 1 \<and> imgCounter st' = 1 \<and> imagePreviews st' = []"
  by (auto simp add: sendMessage_alt_catch_def reset_alt_def appendMessage_alt_def Let_def
        split: option.splits)

lemma sendMessage_alt_resume_resets:
  "sendMessage_alt_resume t outcome st = Returned st' \<Longrightarrow>
     placeholderMap st' = [] \<and> codeCounter st' = 1 \<and> imgCounter st' = 1 \<and> imagePreviews st' = []"
  by (auto simp add: sendMessage_alt_resume_def reset_alt_def Let_def case_prod_beta
        split: fetch_outcome.splits option.splits json_result.splits if_splits
        dest: sendMessage_alt_catch_resets)

subsection \<open>Registered contents\<close>

lemma contains_append: "contains (xs @ sub @ ys) sub"
proof (induction xs)
  case Nil
  show ?case
  proof (cases "sub @ ys")
    case Nil
    then show ?thesis by simp
  next
    case (Cons a list)
    have "prefix sub (sub @ ys)" by simp
    then show ?thesis using Cons by (simp del: prefix_code)
  qed
next
  case (Cons x xs)
  then show ?case by simp
qed

lemma readAsDataURL_is_data_url: "is_data_url (readAsDataURL b)"
  using contains_append [of "''data:'' @ blob_type b" "'';base64,''" "blob_base64 b"]
  by (simp add: is_data_url_def readAsDataURL_def)

lemma update_lookup: "map_of (AList.update k v m) k = Some v"
  by (simp add: update_conv')

lemma reader_onload_registers:
  "map_of (placeholderMap (reader_onload b st)) (token ''img'' (imgCounter st)) = Some (readAsDataURL b)"
  by (simp add: reader_onload_def Let_def addImagePreview_def insertPlaceholder_def update_lookup)

lemma addCodeFromModal_registers:
  "trim (codeInput_value st) \<noteq> [] \<Longrightarrow>
   map_of (placeholderMap (addCodeFromModal st)) (token ''code'' (codeCounter st)) = Some (codeInput_value st)
   \<and> map_of (placeholderMap (addCodeFromModal_alt st)) (token ''code'' (codeCounter st)) = Some (codeInput_value st)"
  by (simp add: addCodeFromModal_def addCodeFromModal_alt_def Let_def addCodePreview_def insertPlaceholder_def update_lookup)

text \<open>
  In the first chat script and on the form page every image token of the mappings holds a
  base64 data URL, whatever the run.
\<close>

lemma update_all: "list_all P m \<Longrightarrow> P (k, v) \<Longrightarrow> list_all P (AList.update k v m)"
  by (induction m) auto

lemma code_token_not_img: "\<not> is_img_token (token ''code'' n)"
  by (simp add: is_img_token_def token_def)

lemma reader_onload_data_urls:
  "list_all (\<lambda>(k, v). is_img_token k \<longrightarrow> is_data_url v) (placeholderMap st) \<Longrightarrow>
   list_all (\<lambda>(k, v). is_img_token k \<longrightarrow> is_data_url v) (placeholderMap (reader_onload b st))"
  by (simp add: reader_onload_def Let_def addImagePreview_def update_all readAsDataURL_is_data_url)

lemma addCodeFromModal_data_urls:
  "list_all (\<lambda>(k, v). is_img_token k \<longrightarrow> is_data_url v) (placeholderMap st) \<Longrightarrow>
   list_all (\<lambda>(k, v). is_img_token k \<longrightarrow> is_data_url v) (placeholderMap (addCodeFromModal st))"
  by (simp add: addCodeFromModal_def Let_def addCodePreview_def update_all code_token_not_img)

lemma chat_step_data_urls:
  assumes "list_all (\<lambda>(k, v). is_img_token k \<longrightarrow> is_data_url v) (placeholderMap st)"
  shows "list_all (\<lambda>(k, v). is_img_token k \<longrightarrow> is_data_url v) (placeholderMap (chat_step st e))"
proof (cases e)
  case (Paste its)
  have "list_all (\<lambda>(k, v). is_img_token k \<longrightarrow> is_data_url v) (placeholderMap s) \<Longrightarrow>
        list_all (\<lambda>(k, v). is_img_token k \<longrightarrow> is_data_url v)
          (placeholderMap (foldl (\<lambda>s b. reader_onload b s) s bs))" for s bs
    by (induction bs arbitrary: s) (simp_all add: reader_onload_data_urls)
  then show ?thesis
    using Paste assms by (simp add: paste_def)
next
  case (AddCode code)
  have "list_all (\<lambda>(k, v). is_img_token k \<longrightarrow> is_data_url v)
               (placeholderMap (st\<lparr>codeInput_value := code\<rparr>))"
    using assms by simp
  then show ?thesis using AddCode addCodeFromModal_data_urls by simp
qed

lemma chat_run_data_urls:
  "list_all (\<lambda>(k, v). is_img_token k \<longrightarrow> is_data_url v)
     (placeholderMap (foldl chat_step (chat_init c) es))"
proof -
  have "list_all (\<lambda>(k, v). is_img_token k \<longrightarrow> is_data_url v) (placeholderMap s) \<Longrightarrow>
        list_all (\<lambda>(k, v). is_img_token k \<longrightarrow> is_data_url v)
          (placeholderMap (foldl chat_step s es))" for s
    by (induction es arbitrary: s) (simp_all add: chat_step_data_urls)
  then show ?thesis by (simp add: chat_init_def)
qed

lemma textarea_mappings_keys:
  "list_all item_wf xs \<Longrightarrow>
   list_all (\<lambda>(k, v). is_img_token k \<longrightarrow> is_data_url v) (textarea_mappings xs)"
proof -
  have "list_all (\<lambda>item. kind item = CodeItem \<and> item_wf item) ys \<Longrightarrow>
        list_all (\<lambda>(k, v). is_img_token k \<longrightarrow> is_data_url v) m \<Longrightarrow>
        list_all (\<lambda>(k, v). is_img_token k \<longrightarrow> is_data_url v)
          (foldl (\<lambda>m item. AList.update (data_placeholder item) (textarea_value item) m) m ys)"
    for ys m
    by (induction ys arbitrary: m)
       (auto simp add: update_all item_wf_def has_type_def is_img_token_def)
  moreover assume "list_all item_wf xs"
  then have "list_all (\<lambda>item. kind item = CodeItem \<and> item_wf item)
               (filter (\<lambda>item. kind item = CodeItem) xs)"
    by (auto simp add: list_all_iff)
  ultimately show ?thesis by (simp add: textarea_mappings_def)
qed

lemma build_mappings_data_urls:
  "form_wf st \<Longrightarrow>
   list_all (\<lambda>(k, v). is_img_token k \<longrightarrow> is_data_url v) (build_mappings (mappingsContainer st))"
proof -
  have "list_all (\<lambda>(k, v). is_img_token k \<longrightarrow> is_data_url v) m \<Longrightarrow>
        list_all (\<lambda>(k, v). is_img_token k \<longrightarrow> is_data_url v) (file_mappings m fs)" for m fs
    unfolding file_mappings_def
    by (induction fs arbitrary: m) (auto simp add: update_all readAsDataURL_is_data_url)
  then show "form_wf st \<Longrightarrow> ?thesis"
    by (simp add: build_mappings_def form_wf_def textarea_mappings_keys)
qed

subsection \<open>Evaluation on the sample inputs\<close>

lemmas evals = chat_init_def form_init_def handlePaste_alt_def paste_item_alt_def Let_def token_def
  string_of_nat.simps digit_char_def insertPlaceholder_def addImagePreview_def addCodePreview_def
  substring_0 substring_from_drop createObjectURL_def sendMessage_alt_def
  sendMessage_alt_begin_def trim_def js_whitespace_def appendMessage_alt_def
  sendMessage_alt_resume_def removeChild_def ok_def sendMessage_alt_catch_def field_def
  js_or_def exitFocusMode_def sendMessage_def sendMessage_begin_def sendMessage_resume_def
  sendMessage_try_def sendMessage_catch_def appendMessage_def showLoadingAnimation_def
  hideLoadingAnimation_def addDownloadButtons_def addDownloadButton_def reset_alt_def
  generateBtn_click_def build_mappings_def textarea_mappings_def file_mappings_def
  generate_catch_def handleDownload_def png_item_def generated_def detail_response_def
  empty_response_def hello_def pasted_alt_def four_items_def addImageBtn_click_def
  addCodeBtn_click_def deleteBtn_click_def reindexPlaceholders_def has_type_def item_wf_def
  form_wf_def addCodeFromModal_def paste_def handlePaste_def reader_onload_def
  readAsDataURL_def is_data_url_def is_img_token_def

subsection \<open>The claims\<close>

text \<open>
  C1: for every text, token and position in \<open>[0, length text]\<close>, inserting the token is
  a pure splice: the new text is longer by the token's length, its substring from
  \<open>position\<close> to \<open>position + length token\<close> is the token, the text before \<open>position\<close>
  and the text after the token are the old prefix and suffix, and the new caret offset is
  \<open>position + length token\<close>.
\<close>

theorem insertPlaceholder_splice:
  assumes "position \<le> length (messageInput_value st)"
  shows "length (messageInput_value (insertPlaceholder tok position st))
           = length (messageInput_value st) + length tok
       \<and> substring (messageInput_value (insertPlaceholder tok position st))
           position (position + length tok) = tok
       \<and> substring (messageInput_value (insertPlaceholder tok position st)) 0 position
           = substring (messageInput_value st) 0 position
       \<and> substring_from (messageInput_value (insertPlaceholder tok position st))
           (position + length tok) = substring_from (messageInput_value st) position
       \<and> lastCursorPosition (insertPlaceholder tok position st) = position + length tok
       \<and> selectionStart (insertPlaceholder tok position st) = position + length tok"
proof -
  let ?t = "messageInput_value st"
  have v: "messageInput_value (insertPlaceholder tok position st)
             = take position ?t @ tok @ drop position ?t"
    by (simp add: insertPlaceholder_def Let_def substring_0 substring_from_drop)
  have len: "length (take position ?t @ tok @ drop position ?t) = length ?t + length tok"
    using assms by simp
  have mid: "substring (take position ?t @ tok @ drop position ?t)
               position (position + length tok) = tok"
    using assms by (simp add: substring_in_range)
  have pre: "substring (take position ?t @ tok @ drop position ?t) 0 position
               = substring ?t 0 position"
    using assms by (simp add: substring_0)
  have suf: "substring_from (take position ?t @ tok @ drop position ?t)
               (position + length tok) = substring_from ?t position"
    using assms by (simp add: substring_from_drop)
  have caret: "lastCursorPosition (insertPlaceholder tok position st) = position + length tok"
    by (simp add: insertPlaceholder_def Let_def)
  have sel: "selectionStart (insertPlaceholder tok position st) = position + length tok"
    using assms by (simp add: insertPlaceholder_def Let_def substring_0 substring_from_drop)
  show ?thesis
    using v len mid pre suf caret sel by simp
qed

theorem insertPlaceholder_splice_witness:
  "(1::nat) \<le> length (messageInput_value ((chat_init ''web'')\<lparr>messageInput_value := ''ab''\<rparr>))
   \<and> messageInput_value (insertPlaceholder ''[[img1]]'' 1
         ((chat_init ''web'')\<lparr>messageInput_value := ''ab''\<rparr>)) = ''a[[img1]]b''
   \<and> length (messageInput_value (insertPlaceholder ''[[img1]]'' 1
         ((chat_init ''web'')\<lparr>messageInput_value := ''ab''\<rparr>))) = 10
   \<and> lastCursorPosition (insertPlaceholder ''[[img1]]'' 1
         ((chat_init ''web'')\<lparr>messageInput_value := ''ab''\<rparr>)) = 9"
  using insertPlaceholder_splice
          [of 1 "(chat_init ''web'')\<lparr>messageInput_value := ''ab''\<rparr>" "''[[img1]]''"]
  by (simp add: chat_init_def insertPlaceholder_def substring_0 substring_from_drop)

text \<open>
  C2: on the form page, after the delete button of an item has removed it, the remaining
  items of the same kind (image or code) carry, in document order, the placeholders and
  labels \<open>[[<type>1]]\<close>, \<open>[[<type>2]]\<close>, ..., \<open>[[<type>count]]\<close>, where \<open>count\<close> is the number
  of remaining items of that kind, and the counter of that type is \<open>count + 1\<close>; the items
  of the other kind and the other counter are unchanged, and the order of the items is kept.
\<close>

theorem deleteBtn_click_renumbers:
  assumes wf: "form_wf st" and i: "i < length (mappingsContainer st)"
  shows "let k = kind (mappingsContainer st ! i);
             remaining = take i (mappingsContainer st) @ drop (Suc i) (mappingsContainer st);
             st' = deleteBtn_click i st;
             same = filter (\<lambda>item. kind item = k) (mappingsContainer st')
         in map kind (mappingsContainer st') = map kind remaining
          \<and> map data_placeholder same = map (token (type_of k)) [1..<Suc (length same)]
          \<and> map label_text same = map (token (type_of k)) [1..<Suc (length same)]
          \<and> (case k of FileItem \<Rightarrow> imageCounter st' | CodeItem \<Rightarrow> form_codeCounter st')
              = Suc (length same)
          \<and> filter (\<lambda>item. kind item \<noteq> k) (mappingsContainer st')
              = filter (\<lambda>item. kind item \<noteq> k) remaining
          \<and> (case k of FileItem \<Rightarrow> form_codeCounter st' = form_codeCounter st
                       | CodeItem \<Rightarrow> imageCounter st' = imageCounter st)
          \<and> form_wf st'"
proof -
  define k where "k = kind (mappingsContainer st ! i)"
  define remaining where
    "remaining = take i (mappingsContainer st) @ drop (Suc i) (mappingsContainer st)"
  define t where "t = type_of k"
  define items' where "items' = fst (reindex_items t 1 remaining)"
  define n where "n = length (filter (has_type t) remaining)"
  have items: "mappingsContainer (deleteBtn_click i st) = items'"
    using i by (simp add: deleteBtn_click_items items'_def t_def k_def remaining_def)
  have wfr: "list_all item_wf remaining"
    using wf unfolding form_wf_def remaining_def by (rule wf_remove)
  have wfi: "list_all item_wf items'"
    unfolding items'_def using type_of_cases [of k] wfr unfolding t_def by (rule reindex_wf)
  have same: "filter (\<lambda>item. kind item = k) items' = filter (has_type t) items'"
    unfolding t_def using wfi by (rule wf_filter)
  have ph: "map data_placeholder (filter (has_type t) items') = map (token t) [1..<1 + n]"
    and lb: "map label_text (filter (has_type t) items') = map (token t) [1..<1 + n]"
    using reindex_same [of t 1 remaining] by (simp_all add: items'_def n_def)
  have len: "length (filter (has_type t) items') = n"
    using arg_cong [OF ph, of length] by simp
  have cnt: "snd (reindex_items t 1 remaining) = Suc n"
    by (simp add: reindex_snd n_def)
  have other: "filter (\<lambda>item. kind item \<noteq> k) items' = filter (\<lambda>item. kind item \<noteq> k) remaining"
    using wf_filter_not [OF wfi, of k] wf_filter_not [OF wfr, of k] reindex_other [of t 1 remaining]
    by (simp add: items'_def t_def)
  have kinds: "map kind items' = map kind remaining"
    using reindex_frame [of t 1 remaining] by (simp add: items'_def)
  have counters:
    "(case k of FileItem \<Rightarrow> imageCounter (deleteBtn_click i st)
              | CodeItem \<Rightarrow> form_codeCounter (deleteBtn_click i st)) = Suc n"
    "(case k of FileItem \<Rightarrow> form_codeCounter (deleteBtn_click i st) = form_codeCounter st
              | CodeItem \<Rightarrow> imageCounter (deleteBtn_click i st) = imageCounter st)"
    using deleteBtn_click_counters [OF i] cnt
    by (simp_all add: k_def t_def remaining_def)
  have wf': "form_wf (deleteBtn_click i st)"
    using wfi by (simp add: form_wf_def items)
  show ?thesis
    unfolding Let_def k_def [symmetric] remaining_def [symmetric] t_def [symmetric] items
    using kinds ph lb len counters other wf' same by simp
qed

theorem deleteBtn_click_renumbers_witness:
  "form_wf four_items \<and> 0 < length (mappingsContainer four_items)
   \<and> map data_placeholder (mappingsContainer four_items)
       = [''[[img1]]'', ''[[code1]]'', ''[[img2]]'', ''[[img3]]'']
   \<and> map data_placeholder (mappingsContainer (deleteBtn_click 0 four_items))
       = [''[[code1]]'', ''[[img1]]'', ''[[img2]]'']
   \<and> map label_text (mappingsContainer (deleteBtn_click 0 four_items))
       = [''[[code1]]'', ''[[img1]]'', ''[[img2]]'']
   \<and> imageCounter (deleteBtn_click 0 four_items) = 3
   \<and> form_codeCounter (deleteBtn_click 0 four_items) = 2"
  using deleteBtn_click_renumbers [of four_items 0]
  by (simp add: evals)

text \<open>
  C3: from a fresh page, with no removal and no reset in between, the image tokens
  minted are \<open>[[img1]]\<close>, \<open>[[img2]]\<close>, ... in the order of the calls, whatever code
  tokens are minted in between, and likewise the code tokens are \<open>[[code1]]\<close>,
  \<open>[[code2]]\<close>, ...; no token occurs twice among them. This holds for the first chat
  script (the labels of the previews, in order) and for the form page (the placeholders of
  the items, in order).
\<close>

theorem mint_sequence:
  "map snd (imagePreviews (foldl chat_step (chat_init c) es))
     = map (token ''img'') [1..<Suc (sum_list (map images_of es))]
   \<and> map snd (codePreviews (foldl chat_step (chat_init c) es))
     = map (token ''code'') [1..<Suc (sum_list (map codes_of es))]
   \<and> map data_placeholder (filter (\<lambda>item. kind item = FileItem)
        (mappingsContainer (foldl form_step (form_init c d) fs)))
     = map (token ''img'') [1..<Suc (length (filter (\<lambda>e. e = AddImageClick) fs))]
   \<and> map data_placeholder (filter (\<lambda>item. kind item = CodeItem)
        (mappingsContainer (foldl form_step (form_init c d) fs)))
     = map (token ''code'') [1..<Suc (length (filter (\<lambda>e. e = AddCodeClick) fs))]
   \<and> distinct (map (token ''img'') [1..<Suc n])
   \<and> distinct (map (token ''code'') [1..<Suc n])"
proof -
  have i: "imgCounter (chat_init c) = 1" "codeCounter (chat_init c) = 1"
    "imagePreviews (chat_init c) = []" "codePreviews (chat_init c) = []"
    by (simp_all add: chat_init_def)
  have f: "imageCounter (form_init c d) = 1" "form_codeCounter (form_init c d) = 1"
    "mappingsContainer (form_init c d) = []"
    by (simp_all add: form_init_def)
  have a: "map snd (imagePreviews (foldl chat_step (chat_init c) es))
     = map (token ''img'') [1..<Suc (sum_list (map images_of es))]"
    using chat_run [of "chat_init c" es] by (simp only: i list.map append_Nil plus_1_eq_Suc)
  have b: "map snd (codePreviews (foldl chat_step (chat_init c) es))
     = map (token ''code'') [1..<Suc (sum_list (map codes_of es))]"
    using chat_run [of "chat_init c" es] by (simp only: i list.map append_Nil plus_1_eq_Suc)
  have c: "map data_placeholder (filter (\<lambda>item. kind item = FileItem)
        (mappingsContainer (foldl form_step (form_init c d) fs)))
     = map (token ''img'') [1..<Suc (length (filter (\<lambda>e. e = AddImageClick) fs))]"
    using form_run [of "form_init c d" fs]
    by (simp only: f list.map filter.simps append_Nil plus_1_eq_Suc)
  have d: "map data_placeholder (filter (\<lambda>item. kind item = CodeItem)
        (mappingsContainer (foldl form_step (form_init c d) fs)))
     = map (token ''code'') [1..<Suc (length (filter (\<lambda>e. e = AddCodeClick) fs))]"
    using form_run [of "form_init c d" fs]
    by (simp only: f list.map filter.simps append_Nil plus_1_eq_Suc)
  show ?thesis using a b c d distinct_tokens by blast
qed

theorem mint_sequence_witness:
  "map snd (imagePreviews (foldl chat_step (chat_init ''web'')
       [Paste [png_item], AddCode ''ls -la'', Paste [png_item, png_item]]))
     = [''[[img1]]'', ''[[img2]]'', ''[[img3]]'']
   \<and> map snd (codePreviews (foldl chat_step (chat_init ''web'')
       [Paste [png_item], AddCode ''ls -la'', Paste [png_item, png_item]]))
     = [''[[code1]]'']"
  using mint_sequence [of "''web''" "[Paste [png_item], AddCode ''ls -la'', Paste [png_item, png_item]]"]
  by (simp add: evals upt_conv_Cons)

text \<open>
  C4: every image token of the Placeholder Map should hold a base64 data URL. The second
  chat script breaks this: after one PNG is pasted into a fresh page, the map holds the
  object URL \<open>blob:null/0\<close> under \<open>[[img1]]\<close>, which is not a data URL; reading the same
  blob as a data URL, as the first chat script and the form page do, gives
  \<open>data:image/png;base64,AAA\<close>.
\<close>

theorem handlePaste_alt_stores_object_url:
  "placeholderMap pasted_alt = [(''[[img1]]'', ''blob:null/0'')]
   \<and> is_img_token ''[[img1]]'' \<and> \<not> is_data_url ''blob:null/0''
   \<and> readAsDataURL (item_file png_item) = ''data:image/png;base64,AAA''"
  by (simp add: evals)

text \<open>
  C5, as the code has it: when a generation request receives a 200 response whose body
  has a string \<open>generated_text\<close>, the form page displays that text and keeps the body's
  \<open>session_id\<close>; the first chat script keeps the \<open>session_id\<close> and displays the message
  \<open>Done!\<close> with two download buttons that carry the text; the second chat script displays
  the text and keeps no session identifier.
\<close>

theorem generation_success:
  assumes "status r = 200" and "json_body r = Parsed data"
    and "field data ''generated_text'' = JStr g"
  shows "(list_all (\<lambda>(placeholder, b). blob_readable b) (chosen_files (mappingsContainer fm))
          \<longrightarrow> outputEl_textContent (generateBtn_click (Responded r) fm) = g
            \<and> form_currentSessionId (generateBtn_click (Responded r) fm) = field data ''session_id'')
       \<and> currentSessionId (sendMessage_resume l (Responded r) st) = field data ''session_id''
       \<and> el_text (last (chatBox (sendMessage_resume l (Responded r) st))) = ''Done!''
       \<and> el_buttons (last (chatBox (sendMessage_resume l (Responded r) st)))
           = [(''Download Package (.zip)'', JStr g), (''Download as Word (.docx)'', JStr g)]
       \<and> (t \<in> el_id ` set (chatBox st)
          \<longrightarrow> \<not> threw (sendMessage_alt_resume t (Responded r) st)
            \<and> el_text (last (chatBox (state_of (sendMessage_alt_resume t (Responded r) st)))) = g
            \<and> currentSessionId (state_of (sendMessage_alt_resume t (Responded r) st)) = currentSessionId st)"
proof -
  have ok: "ok r" using assms(1) by (simp add: ok_def)
  have a: "list_all (\<lambda>(placeholder, b). blob_readable b) (chosen_files (mappingsContainer fm))
          \<Longrightarrow> outputEl_textContent (generateBtn_click (Responded r) fm) = g
            \<and> form_currentSessionId (generateBtn_click (Responded r) fm) = field data ''session_id''"
    using ok assms(2,3) by (simp add: generateBtn_click_def Let_def)
  have b: "currentSessionId (sendMessage_resume l (Responded r) st) = field data ''session_id''"
    using ok assms(2) by (simp add: sendMessage_resume_def sendMessage_try_def Let_def
        appendMessage_def addDownloadButtons_def hideLoadingAnimation_def split: option.split)
  have c: "el_text (last (chatBox (sendMessage_resume l (Responded r) st))) = ''Done!''
       \<and> el_buttons (last (chatBox (sendMessage_resume l (Responded r) st)))
           = [(''Download Package (.zip)'', JStr g), (''Download as Word (.docx)'', JStr g)]"
    using ok assms(2,3) by (simp add: sendMessage_resume_def sendMessage_try_def Let_def
        appendMessage_def addDownloadButtons_def hideLoadingAnimation_def split: option.split)
  have d: "t \<in> el_id ` set (chatBox st)
          \<Longrightarrow> \<not> threw (sendMessage_alt_resume t (Responded r) st)
            \<and> el_text (last (chatBox (state_of (sendMessage_alt_resume t (Responded r) st)))) = g
            \<and> currentSessionId (state_of (sendMessage_alt_resume t (Responded r) st)) = currentSessionId st"
    using ok assms(2,3) by (simp add: sendMessage_alt_resume_def removeChild_def Let_def
        appendMessage_alt_def addDownloadButton_def reset_alt_def)
  show ?thesis using a b c d by blast
qed

theorem generation_success_witness:
  "status generated = 200
   \<and> outputEl_textContent (generateBtn_click (Responded generated) four_items) = ''## Solution''
   \<and> form_currentSessionId (generateBtn_click (Responded generated) four_items) = JStr ''s1''
   \<and> currentSessionId (sendMessage_resume 1 (Responded generated) (snd (sendMessage_begin hello)))
       = JStr ''s1''
   \<and> el_text (last (chatBox (sendMessage_resume 1 (Responded generated)
         (snd (sendMessage_begin hello))))) = ''Done!''
   \<and> el_text (last (chatBox (state_of (sendMessage_alt_resume 1 (Responded generated)
         (snd (sendMessage_alt_begin hello)))))) = ''## Solution''
   \<and> currentSessionId (state_of (sendMessage_alt_resume 1 (Responded generated)
         (snd (sendMessage_alt_begin hello)))) = JNull"
  using generation_success [where r = generated and g = "''## Solution''" and fm = four_items and l = 1
      and st = "snd (sendMessage_begin hello)" and t = 1
      and data = "[(''session_id'', JStr ''s1''), (''generated_text'', JStr ''## Solution'')]"]
     generation_success [where r = generated and g = "''## Solution''" and fm = four_items and l = 1
      and st = "snd (sendMessage_alt_begin hello)" and t = 1
      and data = "[(''session_id'', JStr ''s1''), (''generated_text'', JStr ''## Solution'')]"]
  by (simp add: evals)

text \<open>
  The claim C5 as stated fails on both chat scripts: on a 200 response with
  \<open>generated_text = "## Solution"\<close> the first displays \<open>Done!\<close> and not the text, and the
  second keeps no session identifier.
\<close>

theorem generation_success_counterexample:
  "map el_text (chatBox (sendMessage (Responded generated) hello))
     = [''hello'', ''Done!'']
   \<and> map el_text (chatBox (state_of (sendMessage_alt (Responded generated) hello)))
     = [''hello'', ''## Solution'']
   \<and> currentSessionId (state_of (sendMessage_alt (Responded generated) hello)) = JNull"
  by (simp add: evals)

text \<open>
  C6, as the code has it: an export started while no session identifier is held makes no
  network call; the chat script shows the notice \<open>No session ID found. Please generate a
  writeup first.\<close>, and the form page returns at once and leaves the page as it was.
\<close>

theorem export_without_session:
  assumes "\<not> truthy (currentSessionId st)" and "\<not> truthy (form_currentSessionId fm)"
  shows "network (downloadPackage content outcome st) = network st
       \<and> alerts (downloadPackage content outcome st)
           = alerts st @ [''No session ID found. Please generate a writeup first.'']
       \<and> network (downloadDocx content outcome st) = network st
       \<and> alerts (downloadDocx content outcome st)
           = alerts st @ [''No session ID found. Please generate a writeup first.'']
       \<and> handleDownload url fileName outcome fm = fm"
  using assms
  by (simp add: downloadPackage_def downloadDocx_def download_def no_session_notice_def
        handleDownload_def)

theorem export_without_session_witness:
  "\<not> truthy (currentSessionId (chat_init ''web'')) \<and> \<not> truthy (form_currentSessionId (form_init ''web'' False))
   \<and> network (downloadPackage (JStr ''## Solution'') (Rejected ''offline'') (chat_init ''web'')) = []
   \<and> alerts (downloadDocx (JStr ''## Solution'') (Rejected ''offline'') (chat_init ''web''))
       = [''No session ID found. Please generate a writeup first.'']
   \<and> form_network (handleDownload ''http://127.0.0.1:8000/download-docx'' ''writeup.docx''
        (Rejected ''offline'') (form_init ''web'' False)) = []"
  using export_without_session [of "chat_init ''web''" "form_init ''web'' False" "JStr ''## Solution''" "Rejected ''offline''"
      "''http://127.0.0.1:8000/download-docx''" "''writeup.docx''"]
  by (simp add: chat_init_def form_init_def)

text \<open>
  The claim C6 as stated fails on the form page: with no session identifier,
  \<open>handleDownload\<close> shows no notice.
\<close>

theorem export_without_session_counterexample:
  "form_alerts (handleDownload ''http://127.0.0.1:8000/download-package'' ''writeup_package.zip''
      (Rejected ''offline'') (form_init ''web'' False)) = []
   \<and> form_alerts (handleDownload ''http://127.0.0.1:8000/download-docx'' ''writeup.docx''
      (Rejected ''offline'') (form_init ''web'' False)) = []"
  by (simp add: handleDownload_def form_init_def)

text \<open>
  C7, as the code has it: when a generation request receives a response whose status is
  outside 200 to 299, then, if the body is a JSON object with a non-empty string
  \<open>detail\<close>, the first chat script and the form page display \<open>Error: \<close> followed by that
  string; if the body is not JSON, or is a JSON object with no \<open>detail\<close> or an empty one,
  the first chat script displays \<open>Error: An unknown error occurred.\<close>; and if the body is
  a JSON object with no \<open>detail\<close> or an empty one, the form page displays
  \<open>Error: Failed to generate writeup.\<close>
\<close>

theorem generation_failure_message:
  assumes "\<not> ok r"
  shows "(json_body r = Parsed obj \<and> field obj ''detail'' = JStr d \<and> d \<noteq> [] \<longrightarrow>
           el_text (last (chatBox (sendMessage_resume l (Responded r) st))) = ''Error: '' @ d
         \<and> (list_all (\<lambda>(placeholder, b). blob_readable b) (chosen_files (mappingsContainer fm)) \<longrightarrow>
              outputEl_textContent (generateBtn_click (Responded r) fm) = ''Error: '' @ d))
       \<and> ((\<exists>m. json_body r = SyntaxError m)
            \<or> (\<exists>obj. json_body r = Parsed obj \<and> \<not> truthy (field obj ''detail'')) \<longrightarrow>
           el_text (last (chatBox (sendMessage_resume l (Responded r) st)))
             = ''Error: An unknown error occurred.'')
       \<and> ((\<exists>obj. json_body r = Parsed obj \<and> \<not> truthy (field obj ''detail''))
            \<and> list_all (\<lambda>(placeholder, b). blob_readable b) (chosen_files (mappingsContainer fm)) \<longrightarrow>
           outputEl_textContent (generateBtn_click (Responded r) fm)
             = ''Error: Failed to generate writeup.'')"
proof -
  have catch: "\<And>m s. el_text (last (chatBox (sendMessage_catch l m s))) = ''Error: '' @ m"
    by (simp add: sendMessage_catch_def appendMessage_def Let_def)
  have res: "\<And>s. chatBox (sendMessage_resume l (Responded r) st)
               = chatBox (sendMessage_try l (Responded r) st)"
    by (simp add: sendMessage_resume_def Let_def)
  have a: "json_body r = Parsed obj \<Longrightarrow> field obj ''detail'' = JStr d \<Longrightarrow> d \<noteq> [] \<Longrightarrow>
           el_text (last (chatBox (sendMessage_resume l (Responded r) st))) = ''Error: '' @ d"
    using assms by (simp add: res sendMessage_try_def catch js_or_def)
  have b: "json_body r = Parsed obj \<Longrightarrow> field obj ''detail'' = JStr d \<Longrightarrow> d \<noteq> [] \<Longrightarrow>
           list_all (\<lambda>(placeholder, b). blob_readable b) (chosen_files (mappingsContainer fm)) \<Longrightarrow>
              outputEl_textContent (generateBtn_click (Responded r) fm) = ''Error: '' @ d"
    using assms by (simp add: generateBtn_click_def Let_def generate_catch_def js_or_def)
  have c: "(\<exists>m. json_body r = SyntaxError m)
            \<or> (\<exists>obj. json_body r = Parsed obj \<and> \<not> truthy (field obj ''detail'')) \<Longrightarrow>
           el_text (last (chatBox (sendMessage_resume l (Responded r) st)))
             = ''Error: An unknown error occurred.''"
    using assms by (auto simp add: res sendMessage_try_def catch js_or_def field_def)
  have d: "(\<exists>obj. json_body r = Parsed obj \<and> \<not> truthy (field obj ''detail'')) \<Longrightarrow>
            list_all (\<lambda>(placeholder, b). blob_readable b) (chosen_files (mappingsContainer fm)) \<Longrightarrow>
           outputEl_textContent (generateBtn_click (Responded r) fm)
             = ''Error: Failed to generate writeup.''"
    using assms by (auto simp add: generateBtn_click_def Let_def generate_catch_def js_or_def)
  show ?thesis using a b c d by blast
qed

theorem generation_failure_message_witness:
  "\<not> ok (detail_response 404 ''rate limited'')
   \<and> el_text (last (chatBox (sendMessage_resume 1 (Responded (detail_response 404 ''rate limited''))
         (snd (sendMessage_begin hello))))) = ''Error: rate limited''
   \<and> outputEl_textContent (generateBtn_click (Responded (detail_response 404 ''rate limited''))
         four_items) = ''Error: rate limited''
   \<and> el_text (last (chatBox (sendMessage_resume 1 (Responded (empty_response 500))
         (snd (sendMessage_begin hello))))) = ''Error: An unknown error occurred.''
   \<and> el_text (last (chatBox (sendMessage_resume 1 (Responded (detail_response 404 []))
         (snd (sendMessage_begin hello))))) = ''Error: An unknown error occurred.''
   \<and> outputEl_textContent (generateBtn_click (Responded (detail_response 404 [])) four_items)
       = ''Error: Failed to generate writeup.''"
  using generation_failure_message [where r = "detail_response 404 ''rate limited''" and d = "''rate limited''"
      and obj = "[(''detail'', JStr ''rate limited'')]" and l = 1
      and st = "snd (sendMessage_begin hello)" and fm = four_items]
    generation_failure_message [where r = "empty_response 500" and l = 1
      and st = "snd (sendMessage_begin hello)" and fm = four_items]
    generation_failure_message [where r = "detail_response 404 []" and l = 1
      and st = "snd (sendMessage_begin hello)" and fm = four_items]
  by (simp add: evals)

text \<open>
  The claim C7 as stated fails at a status other than 200 that the code takes for a
  success: on a 201 response with \<open>detail = "rate limited"\<close> the first chat script
  displays \<open>Done!\<close> and the form page displays the body's absent \<open>generated_text\<close>,
  the empty string. It also fails at an empty \<open>detail\<close>: on a 404 response with
  \<open>detail = ""\<close> both display their fallback message, not \<open>Error: \<close> alone.
\<close>

theorem generation_failure_message_counterexample:
  "map el_text (chatBox (sendMessage_resume 0 (Responded (detail_response 201 ''rate limited'')) (chat_init ''web''))) = [''Done!'']
   \<and> outputEl_textContent (generateBtn_click (Responded (detail_response 201 ''rate limited'')) (form_init ''web'' True)) = []
   \<and> map el_text (chatBox (sendMessage_resume 0 (Responded (detail_response 404 [])) (chat_init ''web'')))
       = [''Error: An unknown error occurred.'']
   \<and> outputEl_textContent (generateBtn_click (Responded (detail_response 404 [])) (form_init ''web'' True))
       = ''Error: Failed to generate writeup.''"
  by (simp add: evals)

text \<open>
  C8: after a generation request completes, the registry should be reset whether the
  request succeeded or failed. The second chat script breaks this on a failure response:
  with one pasted image, a 404 response makes the \<open>catch\<close> block remove the
  \<open>Thinking...\<close> message a second time, \<open>removeChild\<close> throws, and the function ends with
  the map, the image counter and the preview as they were and no error message displayed.
  (The first chat script always resets: \<open>sendMessage_resume_resets\<close>.)
\<close>

theorem sendMessage_alt_failure_keeps_registry:
  "threw (sendMessage_alt (Responded (detail_response 404 ''rate limited'')) (pasted_alt))
  \<and> placeholderMap (state_of (sendMessage_alt (Responded (detail_response 404 ''rate limited'')) (pasted_alt))) = [(''[[img1]]'', ''blob:null/0'')]
  \<and> imgCounter (state_of (sendMessage_alt (Responded (detail_response 404 ''rate limited'')) (pasted_alt))) = 2
  \<and> imagePreviews (state_of (sendMessage_alt (Responded (detail_response 404 ''rate limited'')) (pasted_alt))) = [(''blob:null/0'', ''[[img1]]'')]
  \<and> map el_text (chatBox (state_of (sendMessage_alt (Responded (detail_response 404 ''rate limited'')) (pasted_alt)))) = [''[[img1]]'']"
  by (simp add: evals)

text \<open>
  C9: a code submission from the modal whose text is empty or only white space changes
  nothing, in either chat script: the page is left exactly as it was, so no entry is
  added to the Placeholder Map, the code counter is not incremented, the prompt text is
  not modified and no preview is created.
\<close>

theorem addCodeFromModal_blank_noop:
  assumes "\<forall>c\<in>set (codeInput_value st). js_whitespace c"
  shows "addCodeFromModal st = st \<and> addCodeFromModal_alt st = st"
  using assms by (simp add: addCodeFromModal_def addCodeFromModal_alt_def trim_blank)

theorem addCodeFromModal_blank_noop_witness:
  "list_all js_whitespace (codeInput_value ((chat_init ''web'')\<lparr>codeInput_value := [CHR '' '', CHR 0x0A, CHR 0x09]\<rparr>))
   \<and> addCodeFromModal ((chat_init ''web'')\<lparr>codeInput_value := [CHR '' '', CHR 0x0A, CHR 0x09]\<rparr>)
       = (chat_init ''web'')\<lparr>codeInput_value := [CHR '' '', CHR 0x0A, CHR 0x09]\<rparr>
   \<and> addCodeFromModal_alt ((chat_init ''web'')\<lparr>codeInput_value := [CHR '' '', CHR 0x0A, CHR 0x09]\<rparr>)
       = (chat_init ''web'')\<lparr>codeInput_value := [CHR '' '', CHR 0x0A, CHR 0x09]\<rparr>"
  using addCodeFromModal_blank_noop
          [of "(chat_init ''web'')\<lparr>codeInput_value := [CHR '' '', CHR 0x0A, CHR 0x09]\<rparr>"]
  by (simp add: js_whitespace_def)

text \<open>
  C10: a send whose message text is empty or only white space makes no network call and
  leaves the page exactly as it was, in either chat script: the Placeholder Map, both
  counters and all previews are retained, and the reset after a submission is skipped.
\<close>

theorem sendMessage_blank_noop:
  assumes "\<forall>c\<in>set (messageInput_value st). js_whitespace c"
  shows "sendMessage_begin st = (None, st) \<and> sendMessage outcome st = st
       \<and> sendMessage_alt_begin st = (None, st) \<and> sendMessage_alt outcome st = Returned st"
proof -
  have t: "trim (messageInput_value st) = []" using assms by (simp add: trim_blank)
  have r: "\<not> sendButton_disabled st \<Longrightarrow> st\<lparr>sendButton_disabled := False\<rparr> = st"
    by (cases st) simp
  have a: "sendMessage_begin st = (None, st)"
    using t r by (simp add: sendMessage_begin_def Let_def)
  have b: "sendMessage_alt_begin st = (None, st)"
    using t by (simp add: sendMessage_alt_begin_def Let_def)
  show ?thesis using a b by (simp add: sendMessage_def sendMessage_alt_def)
qed

theorem sendMessage_blank_noop_witness:
  "list_all js_whitespace (messageInput_value (chat_step (chat_init ''web'') (AddCode ''x = 1'')\<lparr>messageInput_value := ''  ''\<rparr>))
  \<and> placeholderMap (sendMessage (Rejected ''offline'') (chat_step (chat_init ''web'') (AddCode ''x = 1'')\<lparr>messageInput_value := ''  ''\<rparr>)) = [(''[[code1]]'', ''x = 1'')]
  \<and> codeCounter (sendMessage (Rejected ''offline'') (chat_step (chat_init ''web'') (AddCode ''x = 1'')\<lparr>messageInput_value := ''  ''\<rparr>)) = 2
  \<and> network (sendMessage (Rejected ''offline'') (chat_step (chat_init ''web'') (AddCode ''x = 1'')\<lparr>messageInput_value := ''  ''\<rparr>)) = []"
  using sendMessage_blank_noop
          [of "chat_step (chat_init ''web'') (AddCode ''x = 1'')\<lparr>messageInput_value := ''  ''\<rparr>" "Rejected ''offline''"]
  by (simp add: evals)

end
